theory Spec2Isabelle
  imports Main "HOL-Library.AList"
begin

section \<open>JavaScript values and strings\<close>

text \<open>
  The command line tool keeps its options in module-level variables that hold either a
  string or \<open>undefined\<close> (reading \<open>array[index + 1]\<close> past the end of
  \<open>process.argv\<close>). Thrown values are kept apart by their constructor only.
\<close>

datatype jsval = Undefined | Str string

datatype thrown = Error | TypeError

text \<open>\<open>s.split(c)\<close> for a separator of one character: always at least one part.\<close>

fun js_split :: "char \<Rightarrow> string \<Rightarrow> string list" where
  "js_split c [] = [[]]"
| "js_split c (x # xs) =
     (if x = c then [] # js_split c xs
      else (case js_split c xs of
              [] \<Rightarrow> [[x]]
            | p # ps \<Rightarrow> (x # p) # ps))"

text \<open>\<open>parts.join(d)\<close>.\<close>

fun js_join :: "string \<Rightarrow> string list \<Rightarrow> string" where
  "js_join d [] = []"
| "js_join d [p] = p"
| "js_join d (p # q # ps) = p @ d @ js_join d (q # ps)"

text \<open>
  The elements \<open>parts.splice(start, count)\<close> returns (the removed ones), for
  \<open>0 \<le> start\<close>.
\<close>

definition js_splice :: "nat \<Rightarrow> nat \<Rightarrow> 'a list \<Rightarrow> 'a list" where
  "js_splice start count xs = take count (drop start xs)"

text \<open>\<open>array[i]\<close>: \<open>undefined\<close> out of range.\<close>

definition js_index :: "string list \<Rightarrow> nat \<Rightarrow> jsval" where
  "js_index array i = (if i < length array then Str (array ! i) else Undefined)"

section \<open>util.js: parsing the Neptune domain\<close>

definition MIN_HOST_PARTS :: nat where
  "MIN_HOST_PARTS = 5"

definition NUM_DOMAIN_PARTS :: nat where
  "NUM_DOMAIN_PARTS = 3"

definition HOST_DELIMITER :: char where
  "HOST_DELIMITER = CHR ''.''"

definition ENDPOINT_DELIMITER :: char where
  "ENDPOINT_DELIMITER = CHR '':''"

definition splitHost :: "string \<Rightarrow> thrown + string list" where
  "splitHost neptuneHost =
     (let parts = js_split HOST_DELIMITER neptuneHost in
      if length parts < MIN_HOST_PARTS then Inl Error else Inr parts)"

definition parseNeptuneDomainFromHost :: "string \<Rightarrow> thrown + string" where
  "parseNeptuneDomainFromHost neptuneHost =
     (case splitHost neptuneHost of
        Inl e \<Rightarrow> Inl e
      | Inr parts \<Rightarrow>
          (let domainParts = js_splice (length parts - NUM_DOMAIN_PARTS) NUM_DOMAIN_PARTS parts
           in Inr (js_join [HOST_DELIMITER] domainParts)))"

definition parseNeptuneDomainFromEndpoint :: "jsval \<Rightarrow> thrown + string" where
  "parseNeptuneDomainFromEndpoint neptuneEndpoint =
     (case neptuneEndpoint of
        Undefined \<Rightarrow> Inl TypeError
      | Str e \<Rightarrow>
          (let parts = js_split ENDPOINT_DELIMITER e in
           if length parts \<noteq> 2 then Inl Error
           else parseNeptuneDomainFromHost (parts ! 0)))"

definition parseNeptuneGraphName :: "string \<Rightarrow> thrown + string" where
  "parseNeptuneGraphName neptuneHost =
     (case splitHost neptuneHost of
        Inl e \<Rightarrow> Inl e
      | Inr parts \<Rightarrow> Inr (parts ! 0))"

section \<open>main.js: module state and collaborators\<close>

text \<open>
  \<open>main.js\<close> imports its passes (\<open>graphDBInferenceSchema\<close>,
  \<open>changeGraphQLSchema\<close>, \<open>schemaParser\<close>, \<open>schemaStringify\<close>,
  \<open>validatedSchemaModel\<close>, \<open>resolverJS\<close>, \<open>getNeptuneSchema\<close>) and the file
  system from other modules. They are parameters of the model: a function that returns
  \<open>None\<close> throws. The schema model is a type parameter \<open>'m\<close>. Every call that
  \<open>main\<close> makes to a collaborator is appended to \<open>calls\<close>, with its arguments,
  before its outcome is known. Console output is not modelled.
\<close>

definition NEPTUNE_GRAPH :: string where
  "NEPTUNE_GRAPH = ''neptune-graph''"

definition NEPTUNE_DB :: string where
  "NEPTUNE_DB = ''neptune-db''"

text \<open>How a call into the provisioning modules ends: \<open>process.exit\<close> ends the run
  even inside a \<open>try\<close> block.\<close>

datatype outcome = Returns | Throws | Exits nat

text \<open>The run: going on, ended by \<open>process.exit(code)\<close>, or ended by an exception that
  nothing catches.\<close>

datatype status = Running | Exited nat | Threw

text \<open>The arguments of \<open>createUpdateAWSpipeline\<close>, in the order of its parameters.\<close>

record 'm pipeline_params =
  pipelineName :: jsval
  neptuneDBName :: jsval
  neptuneDBregion :: jsval
  appSyncSchema :: string
  schemaModelP :: 'm
  lambdaFilesPath :: string
  addMutations :: bool
  quietI :: bool
  dirnameP :: string
  isNeptuneIAMAuthP :: bool
  neptuneHost :: string
  neptunePort :: jsval
  outputFolderPathP :: jsval
  neptuneTypeP :: string

text \<open>The object \<open>main\<close> passes to \<open>createAWSpipelineCDK\<close>.\<close>

record 'm cdk_params =
  cdkPipelineName :: jsval
  cdkNeptuneDBName :: jsval
  cdkNeptuneDBregion :: jsval
  cdkAppSyncSchema :: string
  cdkSchemaModel :: 'm
  cdkLambdaFilesPath :: string
  cdkOutputFile :: jsval
  cdkDirname :: string
  cdkQuiet :: bool
  cdkIsNeptuneIAMAuth :: bool
  cdkNeptuneHost :: string
  cdkNeptunePort :: jsval
  cdkOutputFolderPath :: jsval
  cdkNeptuneType :: string

datatype 'm call =
    CallReadFileSync jsval
  | CallSetGetNeptuneSchemaParameters string string jsval bool string
  | CallGetNeptuneSchema bool
  | CallGraphDBInferenceSchema jsval bool
  | CallChangeGraphQLSchema jsval string
  | CallSchemaParser jsval
  | CallValidatedSchemaModel 'm bool
  | CallResolverJS 'm string string string
  | CallMkdirSync jsval
  | CallSchemaStringify 'm bool
  | CallWriteFileSync jsval jsval
  | CallCreateLambdaDeploymentPackage string jsval
  | CallCreateUpdateAWSpipeline "'m pipeline_params"
  | CallCreateAWSpipelineCDK "'m cdk_params"
  | CallRemoveAWSpipelineResources string bool

text \<open>
  Modelled from the spec: the passes that \<open>main.js\<close> imports (\<open>graphdb.js\<close>,
  \<open>changes.js\<close>, \<open>schemaParser.js\<close>, \<open>schemaModelValidator.js\<close>,
  \<open>resolverJS.js\<close>, \<open>NeptuneSchema.js\<close>) are not among the sources. Section 5 of
  the spec makes every pass a pure, deterministic function of its explicit inputs, so each
  pass is a function of its arguments here (\<open>None\<close> when it throws), and two calls with
  the same arguments give the same result. \<open>jsonParses\<close> says of a text whether
  \<open>JSON.parse\<close> returns for it.
\<close>

record 'm env =
  dirname :: string
  emptyObject :: 'm
  readFileSync :: "string \<Rightarrow> string option"
  mkdirSync :: "jsval \<Rightarrow> bool"
  getNeptuneSchema :: "string \<Rightarrow> string \<Rightarrow> jsval \<Rightarrow> string \<Rightarrow> bool \<Rightarrow> string option"
  graphDBInferenceSchema :: "jsval \<Rightarrow> bool \<Rightarrow> string option"
  changeGraphQLSchema :: "jsval \<Rightarrow> string \<Rightarrow> string option"
  schemaParser :: "jsval \<Rightarrow> 'm option"
  validatedSchemaModel :: "'m \<Rightarrow> bool \<Rightarrow> 'm option"
  resolverJS :: "'m \<Rightarrow> string \<Rightarrow> string \<Rightarrow> string \<Rightarrow> string option"
  schemaStringify :: "'m \<Rightarrow> bool \<Rightarrow> string option"
  runCreateUpdateAWSpipeline :: "'m pipeline_params \<Rightarrow> outcome"
  runCreateAWSpipelineCDK :: "'m cdk_params \<Rightarrow> outcome"
  jsonParses :: "string \<Rightarrow> bool"
  runRemoveAWSpipelineResources :: "string \<Rightarrow> bool \<Rightarrow> outcome"

text \<open>The module-level variables of \<open>main.js\<close>, with the trace and the status of the run.\<close>

record 'm cli =
  quiet :: bool
  inputGraphQLSchema :: jsval
  inputGraphQLSchemaFile :: jsval
  inputGraphQLSchemaChanges :: string
  inputGraphQLSchemaChangesFile :: jsval
  inputGraphDBSchema :: jsval
  inputGraphDBSchemaFile :: jsval
  inputGraphDBSchemaNeptuneEndpoint :: jsval
  queryLanguage :: string
  queryClient :: string
  isNeptuneIAMAuth :: bool
  createUpdatePipeline :: bool
  createUpdatePipelineName :: jsval
  createUpdatePipelineEndpoint :: jsval
  createUpdatePipelineRegion :: jsval
  createUpdatePipelineNeptuneDatabaseName :: jsval
  removePipelineName :: jsval
  inputCDKpipeline :: bool
  inputCDKpipelineName :: jsval
  inputCDKpipelineEnpoint :: jsval
  inputCDKpipelineFile :: jsval
  inputCDKpipelineRegion :: jsval
  inputCDKpipelineDatabaseName :: jsval
  createLambdaZip :: bool
  outputFolderPath :: jsval
  neptuneType :: string
  outputSchema :: string
  outputSchemaFile :: jsval
  outputSourceSchema :: string
  outputSourceSchemaFile :: jsval
  outputSchemaMutations :: bool
  outputLambdaResolver :: string
  outputLambdaResolverFile :: jsval
  outputJSResolver :: string
  outputJSResolverFile :: jsval
  outputNeptuneSchemaFile :: jsval
  outputLambdaResolverZipName :: jsval
  outputLambdaResolverZipFile :: jsval
  outputLambdaPackagePath :: string
  schemaModel :: 'm
  calls :: "'m call list"
  status :: status

definition initial :: "'m env \<Rightarrow> 'm cli" where
  "initial env =
     \<lparr> quiet = False,
       inputGraphQLSchema = Str '''',
       inputGraphQLSchemaFile = Str '''',
       inputGraphQLSchemaChanges = '''',
       inputGraphQLSchemaChangesFile = Str '''',
       inputGraphDBSchema = Str '''',
       inputGraphDBSchemaFile = Str '''',
       inputGraphDBSchemaNeptuneEndpoint = Str '''',
       queryLanguage = ''opencypher'',
       queryClient = ''sdk'',
       isNeptuneIAMAuth = False,
       createUpdatePipeline = False,
       createUpdatePipelineName = Str '''',
       createUpdatePipelineEndpoint = Str '''',
       createUpdatePipelineRegion = Str ''us-east-1'',
       createUpdatePipelineNeptuneDatabaseName = Str '''',
       removePipelineName = Str '''',
       inputCDKpipeline = False,
       inputCDKpipelineName = Str '''',
       inputCDKpipelineEnpoint = Str '''',
       inputCDKpipelineFile = Str '''',
       inputCDKpipelineRegion = Str '''',
       inputCDKpipelineDatabaseName = Str '''',
       createLambdaZip = True,
       outputFolderPath = Str ''./output'',
       neptuneType = NEPTUNE_DB,
       outputSchema = '''',
       outputSchemaFile = Str '''',
       outputSourceSchema = '''',
       outputSourceSchemaFile = Str '''',
       outputSchemaMutations = True,
       outputLambdaResolver = '''',
       outputLambdaResolverFile = Str '''',
       outputJSResolver = '''',
       outputJSResolverFile = Str '''',
       outputNeptuneSchemaFile = Str '''',
       outputLambdaResolverZipName = Str '''',
       outputLambdaResolverZipFile = Str '''',
       outputLambdaPackagePath = '''',
       schemaModel = emptyObject env,
       calls = [],
       status = Running \<rparr>"

text \<open>String conversion in \<open>+\<close> and in template literals.\<close>

definition to_string :: "jsval \<Rightarrow> string" where
  "to_string v = (case v of Undefined \<Rightarrow> ''undefined'' | Str s \<Rightarrow> s)"

text \<open>\<open>!v == ''\<close> holds exactly when \<open>v\<close> is truthy: a string that is not empty.\<close>

definition truthy :: "jsval \<Rightarrow> bool" where
  "truthy v = (case v of Undefined \<Rightarrow> False | Str s \<Rightarrow> s \<noteq> '''')"

text \<open>\<open>s.includes(sub)\<close>.\<close>

fun js_includes :: "string \<Rightarrow> string \<Rightarrow> bool" where
  "js_includes [] sub = (sub = [])"
| "js_includes (x # xs) sub = (take (length sub) (x # xs) = sub \<or> js_includes xs sub)"

definition log :: "'m call \<Rightarrow> 'm cli \<Rightarrow> 'm cli" where
  "log c s = s\<lparr>calls := calls s @ [c]\<rparr>"

definition exit :: "nat \<Rightarrow> 'm cli \<Rightarrow> 'm cli" where
  "exit code s = s\<lparr>status := Exited code\<rparr>"

definition throw :: "'m cli \<Rightarrow> 'm cli" where
  "throw s = s\<lparr>status := Threw\<rparr>"

text \<open>Statements in sequence: nothing runs once the process has exited or thrown.\<close>

fun run_steps :: "('m cli \<Rightarrow> 'm cli) list \<Rightarrow> 'm cli \<Rightarrow> 'm cli" where
  "run_steps [] s = s"
| "run_steps (f # fs) s = (if status s = Running then run_steps fs (f s) else s)"

text \<open>\<open>readFileSync(path, 'utf8')\<close>: throws on \<open>undefined\<close>.\<close>

definition read_file :: "'m env \<Rightarrow> jsval \<Rightarrow> string option" where
  "read_file env path = (case path of Undefined \<Rightarrow> None | Str f \<Rightarrow> readFileSync env f)"

section \<open>main.js: processArgs\<close>

text \<open>
  One round of \<open>process.argv.forEach(function (val, index, array) { switch (val) ... })\<close>.
  \<open>--help\<close> and \<open>--version\<close> end the process with code 0.
\<close>

definition processArg :: "string list \<Rightarrow> nat \<Rightarrow> string \<Rightarrow> 'm cli \<Rightarrow> 'm cli" where
  "processArg array index val s =
     (let next = js_index array (index + 1) in
      if val \<in> {''--help'', ''--h'', ''-help'', ''-h''} then exit 0 s
      else if val \<in> {''--version'', ''--v'', ''-version'', ''-v''} then exit 0 s
      else if val \<in> {''-q'', ''--quiet''} then s\<lparr>quiet := True\<rparr>
      else if val \<in> {''-is'', ''--input-schema''} then s\<lparr>inputGraphQLSchema := next\<rparr>
      else if val \<in> {''-isf'', ''--input-schema-file''} then s\<lparr>inputGraphQLSchemaFile := next\<rparr>
      else if val \<in> {''-ig'', ''--input-graphdb-schema''} then s\<lparr>inputGraphDBSchema := next\<rparr>
      else if val \<in> {''-igf'', ''--input-graphdb-schema-file''}
        then s\<lparr>inputGraphDBSchemaFile := next\<rparr>
      else if val \<in> {''-isc'', ''--input-schema-changes-file''}
        then s\<lparr>inputGraphQLSchemaChangesFile := next\<rparr>
      else if val \<in> {''-ie'', ''--input-graphdb-schema-neptune-endpoint''}
        then s\<lparr>inputGraphDBSchemaNeptuneEndpoint := next\<rparr>
      else if val \<in> {''-os'', ''--output-schema-file''} then s\<lparr>outputSchemaFile := next\<rparr>
      else if val \<in> {''-oss'', ''--output-source-schema-file''}
        then s\<lparr>outputSourceSchemaFile := next\<rparr>
      else if val \<in> {''-onm'', ''--output-schema-no-mutations''}
        then s\<lparr>outputSchemaMutations := False\<rparr>
      else if val \<in> {''-olr'', ''--output-lambda-resolver-file''}
        then s\<lparr>outputLambdaResolverFile := next\<rparr>
      else if val \<in> {''-or'', ''--output-js-resolver-file''}
        then s\<lparr>outputJSResolverFile := next\<rparr>
      else if val \<in> {''-og'', ''--output-neptune-schema-file''}
        then s\<lparr>outputNeptuneSchemaFile := next\<rparr>
      else if val \<in> {''-org'', ''--output-resolver-query-gremlin''}
        then s\<lparr>queryLanguage := ''gremlin''\<rparr>
      else if val \<in> {''-oro'', ''--output-resolver-query-opencypher''}
        then s\<lparr>queryLanguage := ''opencypher''\<rparr>
      else if val \<in> {''-orc'', ''--output-resolver-query-client''}
        then s\<lparr>queryClient := ''client''\<rparr>
      else if val \<in> {''-orh'', ''--output-resolver-query-https''}
        then s\<lparr>queryClient := ''http''\<rparr>
      else if val \<in> {''-ors'', ''--output-resolver-query-sdk''}
        then s\<lparr>queryClient := ''sdk''\<rparr>
      else if val \<in> {''-p'', ''--create-update-aws-pipeline''}
        then s\<lparr>createUpdatePipeline := True\<rparr>
      else if val \<in> {''-pn'', ''--create-update-aws-pipeline-name''}
        then s\<lparr>createUpdatePipelineName := next\<rparr>
      else if val \<in> {''-pr'', ''--create-update-aws-pipeline-region''}
        then s\<lparr>createUpdatePipelineRegion := next\<rparr>
      else if val \<in> {''-pe'', ''--create-update-aws-pipeline-neptune-endpoint''}
        then s\<lparr>createUpdatePipelineEndpoint := next\<rparr>
      else if val \<in> {''-pd'', ''--create-update-aws-pipeline-neptune-database-name''}
        then s\<lparr>createUpdatePipelineNeptuneDatabaseName := next\<rparr>
      else if val \<in> {''-rp'', ''--remove-aws-pipeline-name''}
        then s\<lparr>removePipelineName := next\<rparr>
      else if val \<in> {''-c'', ''--output-aws-pipeline-cdk''} then s\<lparr>inputCDKpipeline := True\<rparr>
      else if val \<in> {''-ce'', ''--output-aws-pipeline-cdk-neptune-endpoint''}
        then s\<lparr>inputCDKpipelineEnpoint := next\<rparr>
      else if val \<in> {''-cd'', ''--output-aws-pipeline-cdk-neptune-database-name''}
        then s\<lparr>inputCDKpipelineDatabaseName := next\<rparr>
      else if val \<in> {''-cn'', ''--output-aws-pipeline-cdk-name''}
        then s\<lparr>inputCDKpipelineName := next\<rparr>
      else if val \<in> {''-cr'', ''--output-aws-pipeline-cdk-region''}
        then s\<lparr>inputCDKpipelineRegion := next\<rparr>
      else if val \<in> {''-cf'', ''--output-aws-pipeline-cdk-file''}
        then s\<lparr>inputCDKpipelineFile := next\<rparr>
      else if val \<in> {''-oln'', ''--output-lambda-resolver-zip-name''}
        then s\<lparr>outputLambdaResolverZipName := next\<rparr>
      else if val \<in> {''-olf'', ''--output-lambda-resolver-zip-file''}
        then s\<lparr>outputLambdaResolverZipFile := next\<rparr>
      else if val \<in> {''-pi'', ''--create-update-aws-pipeline-neptune-IAM''}
        then s\<lparr>isNeptuneIAMAuth := True\<rparr>
      else if val \<in> {''-ci'', ''--output-aws-pipeline-cdk-neptune-IAM''}
        then s\<lparr>isNeptuneIAMAuth := True\<rparr>
      else if val \<in> {''-onl'', ''--output-no-lambda-zip''} then s\<lparr>createLambdaZip := False\<rparr>
      else if val \<in> {''-o'', ''--output-folder-path''} then s\<lparr>outputFolderPath := next\<rparr>
      else s)"

text \<open>The rounds of \<open>forEach\<close> from position \<open>index\<close> on, over the elements \<open>vals\<close>
  left; \<open>array\<close> is the whole of \<open>process.argv\<close>.\<close>

fun forEachArg :: "string list \<Rightarrow> nat \<Rightarrow> string list \<Rightarrow> 'm cli \<Rightarrow> 'm cli" where
  "forEachArg array index [] s = s"
| "forEachArg array index (val # vals) s =
     (if status s = Running
      then forEachArg array (index + 1) vals (processArg array index val s)
      else s)"

definition processArgs :: "string list \<Rightarrow> 'm cli \<Rightarrow> 'm cli" where
  "processArgs argv s = forEachArg argv 0 argv s"

section \<open>main.js: main\<close>

text \<open>Each definition is one block of \<open>main\<close>, in the order of the source.\<close>

text \<open>Get graphDB schema from file.\<close>

definition loadGraphDBSchemaFile :: "'m env \<Rightarrow> 'm cli \<Rightarrow> 'm cli" where
  "loadGraphDBSchemaFile env s =
     (if inputGraphDBSchemaFile s \<noteq> Str '''' \<and> inputGraphQLSchema s = Str ''''
         \<and> inputGraphQLSchemaFile s = Str ''''
      then (let s1 = log (CallReadFileSync (inputGraphDBSchemaFile s)) s in
            case read_file env (inputGraphDBSchemaFile s) of
              Some text \<Rightarrow> s1\<lparr>inputGraphDBSchema := Str text\<rparr>
            | None \<Rightarrow> exit 1 s1)
      else s)"

text \<open>Check if any of the Neptune endpoints is a Neptune Analytics endpoint.\<close>

definition nonEmptyEndpoints :: "'m cli \<Rightarrow> jsval list" where
  "nonEmptyEndpoints s =
     filter (\<lambda>endpoint. endpoint \<noteq> Str '''')
       [inputGraphDBSchemaNeptuneEndpoint s, createUpdatePipelineEndpoint s,
        inputCDKpipelineEnpoint s]"

text \<open>\<open>nonEmptyEndpoints.length > 0 &&
  parseNeptuneDomainFromEndpoint(nonEmptyEndpoints[0]).includes(NEPTUNE_GRAPH)\<close>\<close>

definition isNeptuneAnalyticsGraph :: "'m cli \<Rightarrow> thrown + bool" where
  "isNeptuneAnalyticsGraph s =
     (if length (nonEmptyEndpoints s) > 0
      then (case parseNeptuneDomainFromEndpoint (nonEmptyEndpoints s ! 0) of
              Inl e \<Rightarrow> Inl e
            | Inr domain \<Rightarrow> Inr (js_includes domain NEPTUNE_GRAPH))
      else Inr False)"

definition detectNeptuneType :: "'m cli \<Rightarrow> 'm cli" where
  "detectNeptuneType s =
     (case isNeptuneAnalyticsGraph s of
        Inl e \<Rightarrow> throw s
      | Inr graph \<Rightarrow>
          if graph then s\<lparr>neptuneType := NEPTUNE_GRAPH, isNeptuneIAMAuth := True\<rparr> else s)"

text \<open>Get Neptune schema from endpoint.\<close>

definition getSchemaFromEndpoint :: "'m env \<Rightarrow> 'm cli \<Rightarrow> 'm cli" where
  "getSchemaFromEndpoint env s =
     (if inputGraphDBSchemaNeptuneEndpoint s \<noteq> Str '''' \<and> inputGraphDBSchema s = Str ''''
         \<and> inputGraphDBSchemaFile s = Str ''''
      then (case inputGraphDBSchemaNeptuneEndpoint s of
              Undefined \<Rightarrow> throw s
            | Str endpoint \<Rightarrow>
                (let endpointParts = js_split CHR '':'' endpoint in
                 if length endpointParts \<noteq> 2 then exit 1 s
                 else
                   (let host = endpointParts ! 0;
                        port = endpointParts ! 1;
                        neptuneRegionParts = js_split CHR ''.'' endpoint;
                        neptuneRegion =
                          (if neptuneType s = NEPTUNE_DB then js_index neptuneRegionParts 2
                           else js_index neptuneRegionParts 1);
                        s1 = log (CallSetGetNeptuneSchemaParameters host port neptuneRegion True
                                    (neptuneType s)) s;
                        s2 = log (CallGetNeptuneSchema (quiet s)) s1
                    in case getNeptuneSchema env host port neptuneRegion (neptuneType s) (quiet s) of
                         None \<Rightarrow> throw s2
                       | Some schema \<Rightarrow> s2\<lparr>inputGraphDBSchema := Str schema\<rparr>)))
      else s)"

text \<open>Option 2: inference GraphQL schema from graphDB schema.\<close>

definition inferGraphQLSchema :: "'m env \<Rightarrow> 'm cli \<Rightarrow> 'm cli" where
  "inferGraphQLSchema env s =
     (if inputGraphDBSchema s \<noteq> Str '''' \<and> inputGraphQLSchema s = Str ''''
         \<and> inputGraphQLSchemaFile s = Str ''''
      then (let s1 = log (CallGraphDBInferenceSchema (inputGraphDBSchema s)
                            (outputSchemaMutations s)) s in
            case graphDBInferenceSchema env (inputGraphDBSchema s) (outputSchemaMutations s) of
              None \<Rightarrow> throw s1
            | Some sdl \<Rightarrow> s1\<lparr>inputGraphQLSchema := Str sdl\<rparr>)
      else s)"

text \<open>Option 1: load.\<close>

definition loadGraphQLSchemaFile :: "'m env \<Rightarrow> 'm cli \<Rightarrow> 'm cli" where
  "loadGraphQLSchemaFile env s =
     (if inputGraphQLSchema s = Str '''' \<and> inputGraphQLSchemaFile s \<noteq> Str ''''
      then (let s1 = log (CallReadFileSync (inputGraphQLSchemaFile s)) s in
            case read_file env (inputGraphQLSchemaFile s) of
              Some text \<Rightarrow> s1\<lparr>inputGraphQLSchema := Str text\<rparr>
            | None \<Rightarrow> exit 1 s1)
      else s)"

text \<open>Changes.\<close>

definition loadChangesFile :: "'m env \<Rightarrow> 'm cli \<Rightarrow> 'm cli" where
  "loadChangesFile env s =
     (if inputGraphQLSchemaChangesFile s \<noteq> Str ''''
      then (let s1 = log (CallReadFileSync (inputGraphQLSchemaChangesFile s)) s in
            case read_file env (inputGraphQLSchemaChangesFile s) of
              Some text \<Rightarrow> s1\<lparr>inputGraphQLSchemaChanges := text\<rparr>
            | None \<Rightarrow> exit 1 s1)
      else s)"

text \<open>AWS pipeline.\<close>

definition pipelineDefaultEndpoint :: "'m cli \<Rightarrow> 'm cli" where
  "pipelineDefaultEndpoint s =
     (if truthy (inputGraphDBSchemaNeptuneEndpoint s) \<and> createUpdatePipelineEndpoint s = Str ''''
      then s\<lparr>createUpdatePipelineEndpoint := inputGraphDBSchemaNeptuneEndpoint s\<rparr>
      else s)"

definition pipelineRequired :: "'m cli \<Rightarrow> 'm cli" where
  "pipelineRequired s =
     (if createUpdatePipelineEndpoint s = Str '''' \<and> createUpdatePipelineRegion s = Str ''''
         \<and> createUpdatePipelineNeptuneDatabaseName s = Str ''''
      then exit 1 s
      else if createUpdatePipelineEndpoint s = Str '''' \<and> truthy (createUpdatePipelineRegion s)
         \<and> createUpdatePipelineNeptuneDatabaseName s = Str ''''
      then exit 1 s
      else if createUpdatePipelineEndpoint s = Str '''' \<and> createUpdatePipelineRegion s = Str ''''
         \<and> truthy (createUpdatePipelineNeptuneDatabaseName s)
      then exit 1 s
      else s)"

definition pipelineFromEndpoint :: "'m cli \<Rightarrow> 'm cli" where
  "pipelineFromEndpoint s =
     (if createUpdatePipelineEndpoint s \<noteq> Str ''''
      then (case createUpdatePipelineEndpoint s of
              Undefined \<Rightarrow> throw s
            | Str endpoint \<Rightarrow>
                (let parts = js_split CHR ''.'' endpoint;
                     s1 = s\<lparr>createUpdatePipelineNeptuneDatabaseName := js_index parts 0\<rparr>;
                     parsedRegion =
                       (if neptuneType s1 = NEPTUNE_DB then js_index parts 2
                        else js_index parts 1)
                 in if createUpdatePipelineRegion s1 \<noteq> parsedRegion
                    then s1\<lparr>createUpdatePipelineRegion := parsedRegion\<rparr>
                    else s1))
      else s)"

definition pipelineDefaultName :: "'m cli \<Rightarrow> 'm cli" where
  "pipelineDefaultName s =
     (if createUpdatePipelineName s = Str ''''
      then s\<lparr>createUpdatePipelineName := createUpdatePipelineNeptuneDatabaseName s\<rparr>
      else s)"

definition pipelineOptions :: "'m cli \<Rightarrow> 'm cli" where
  "pipelineOptions s =
     (if createUpdatePipeline s
      then run_steps [pipelineDefaultEndpoint, pipelineRequired, pipelineFromEndpoint,
                      pipelineDefaultName] s
      else s)"

text \<open>CDK.\<close>

definition cdkDefaultEndpoint :: "'m cli \<Rightarrow> 'm cli" where
  "cdkDefaultEndpoint s =
     (if truthy (inputGraphDBSchemaNeptuneEndpoint s)
      then s\<lparr>inputCDKpipelineEnpoint := inputGraphDBSchemaNeptuneEndpoint s\<rparr>
      else s)"

definition cdkRequired :: "'m cli \<Rightarrow> 'm cli" where
  "cdkRequired s =
     (if inputCDKpipelineEnpoint s = Str '''' \<and> inputCDKpipelineRegion s = Str ''''
         \<and> inputCDKpipelineDatabaseName s = Str ''''
      then exit 1 s
      else if inputCDKpipelineEnpoint s = Str '''' \<and> truthy (inputCDKpipelineRegion s)
         \<and> inputCDKpipelineDatabaseName s = Str ''''
      then exit 1 s
      else if inputCDKpipelineEnpoint s = Str '''' \<and> inputCDKpipelineRegion s = Str ''''
         \<and> truthy (inputCDKpipelineDatabaseName s)
      then exit 1 s
      else s)"

definition cdkFromEndpoint :: "'m cli \<Rightarrow> 'm cli" where
  "cdkFromEndpoint s =
     (if inputCDKpipelineEnpoint s \<noteq> Str ''''
      then (case inputCDKpipelineEnpoint s of
              Undefined \<Rightarrow> throw s
            | Str endpoint \<Rightarrow>
                (let parts = js_split CHR ''.'' endpoint
                 in s\<lparr>inputCDKpipelineDatabaseName := js_index parts 0,
                       inputCDKpipelineRegion := js_index parts 2\<rparr>))
      else s)"

definition cdkDefaultName :: "'m cli \<Rightarrow> 'm cli" where
  "cdkDefaultName s =
     (if inputCDKpipelineName s = Str ''''
      then s\<lparr>inputCDKpipelineName := inputCDKpipelineDatabaseName s\<rparr>
      else s)"

definition cdkOptions :: "'m cli \<Rightarrow> 'm cli" where
  "cdkOptions s =
     (if inputCDKpipeline s
      then run_steps [cdkDefaultEndpoint, cdkRequired, cdkFromEndpoint, cdkDefaultName] s
      else s)"

text \<open>Apply changes.\<close>

definition applyChanges :: "'m env \<Rightarrow> 'm cli \<Rightarrow> 'm cli" where
  "applyChanges env s =
     (if inputGraphQLSchemaChanges s \<noteq> ''''
      then (let s1 = log (CallChangeGraphQLSchema (inputGraphQLSchema s)
                            (inputGraphQLSchemaChanges s)) s in
            case changeGraphQLSchema env (inputGraphQLSchema s) (inputGraphQLSchemaChanges s) of
              None \<Rightarrow> throw s1
            | Some sdl \<Rightarrow> s1\<lparr>inputGraphQLSchema := Str sdl\<rparr>)
      else s)"

text \<open>Parse schema, validate schema, generate the two resolvers.\<close>

definition parseSchema :: "'m env \<Rightarrow> 'm cli \<Rightarrow> 'm cli" where
  "parseSchema env s =
     (let s1 = log (CallSchemaParser (inputGraphQLSchema s)) s in
      case schemaParser env (inputGraphQLSchema s) of
        None \<Rightarrow> throw s1
      | Some m \<Rightarrow> s1\<lparr>schemaModel := m\<rparr>)"

definition validateSchema :: "'m env \<Rightarrow> 'm cli \<Rightarrow> 'm cli" where
  "validateSchema env s =
     (let s1 = log (CallValidatedSchemaModel (schemaModel s) (quiet s)) s in
      case validatedSchemaModel env (schemaModel s) (quiet s) of
        None \<Rightarrow> throw s1
      | Some m \<Rightarrow> s1\<lparr>schemaModel := m\<rparr>)"

definition generateLambdaResolver :: "'m env \<Rightarrow> 'm cli \<Rightarrow> 'm cli" where
  "generateLambdaResolver env s =
     (let s1 = log (CallResolverJS (schemaModel s) (queryLanguage s) (queryClient s)
                      (dirname env)) s in
      case resolverJS env (schemaModel s) (queryLanguage s) (queryClient s) (dirname env) of
        None \<Rightarrow> throw s1
      | Some text \<Rightarrow> s1\<lparr>outputLambdaResolver := text\<rparr>)"

definition generateJSResolver :: "'m env \<Rightarrow> 'm cli \<Rightarrow> 'm cli" where
  "generateJSResolver env s =
     (let s1 = log (CallResolverJS (schemaModel s) (queryLanguage s) (queryClient s)
                      (dirname env)) s in
      case resolverJS env (schemaModel s) (queryLanguage s) (queryClient s) (dirname env) of
        None \<Rightarrow> throw s1
      | Some text \<Rightarrow> s1\<lparr>outputJSResolver := text\<rparr>)"

definition parseValidateGenerate :: "'m env \<Rightarrow> 'm cli \<Rightarrow> 'm cli" where
  "parseValidateGenerate env s =
     (if inputGraphQLSchema s \<noteq> Str ''''
      then run_steps [parseSchema env, validateSchema env, generateLambdaResolver env,
                      generateJSResolver env] s
      else s)"

text \<open>Init output folder.\<close>

definition initOutputFolder :: "'m env \<Rightarrow> 'm cli \<Rightarrow> 'm cli" where
  "initOutputFolder env s =
     (let s1 = log (CallMkdirSync (outputFolderPath s)) s in
      if mkdirSync env (outputFolderPath s) then s1 else throw s1)"

text \<open>
  Outputs. A failing \<open>writeFileSync\<close> is caught and reported on the console only, so
  the trace keeps the attempted write and the run goes on.
\<close>

text \<open>Output GraphQL schema no directives.\<close>

definition writeSchema :: "'m env \<Rightarrow> 'm cli \<Rightarrow> 'm cli" where
  "writeSchema env s =
     (let s1 = log (CallSchemaStringify (schemaModel s) False) s in
      case schemaStringify env (schemaModel s) False of
        None \<Rightarrow> throw s1
      | Some text \<Rightarrow>
          (let s2 = s1\<lparr>outputSchema := text\<rparr>;
               s3 = (if outputSchemaFile s2 = Str ''''
                     then (if createUpdatePipelineName s2 = Str ''''
                           then s2\<lparr>outputSchemaFile :=
                                  Str (to_string (outputFolderPath s2) @ ''/output.schema.graphql'')\<rparr>
                           else s2\<lparr>outputSchemaFile :=
                                  Str (to_string (outputFolderPath s2) @ ''/''
                                       @ to_string (createUpdatePipelineName s2)
                                       @ ''.schema.graphql'')\<rparr>)
                     else s2)
           in log (CallWriteFileSync (outputSchemaFile s3) (Str (outputSchema s3))) s3))"

text \<open>Output GraphQL schema with directives.\<close>

definition writeSourceSchema :: "'m env \<Rightarrow> 'm cli \<Rightarrow> 'm cli" where
  "writeSourceSchema env s =
     (let s1 = log (CallSchemaStringify (schemaModel s) True) s in
      case schemaStringify env (schemaModel s) True of
        None \<Rightarrow> throw s1
      | Some text \<Rightarrow>
          (let s2 = s1\<lparr>outputSourceSchema := text\<rparr>;
               s3 = (if outputSourceSchemaFile s2 = Str ''''
                     then (if createUpdatePipelineName s2 = Str ''''
                           then s2\<lparr>outputSourceSchemaFile :=
                                  Str (to_string (outputFolderPath s2)
                                       @ ''/output.source.schema.graphql'')\<rparr>
                           else s2\<lparr>outputSourceSchemaFile :=
                                  Str (to_string (outputFolderPath s2) @ ''/''
                                       @ to_string (createUpdatePipelineName s2)
                                       @ ''.source.schema.graphql'')\<rparr>)
                     else s2)
           in log (CallWriteFileSync (outputSourceSchemaFile s3) (Str (outputSourceSchema s3))) s3))"

text \<open>Output Neptune schema.\<close>

definition writeNeptuneSchema :: "'m cli \<Rightarrow> 'm cli" where
  "writeNeptuneSchema s =
     (let s1 = (if outputNeptuneSchemaFile s = Str ''''
                then (if createUpdatePipelineName s = Str ''''
                      then s\<lparr>outputNeptuneSchemaFile :=
                             Str (to_string (outputFolderPath s) @ ''/output.neptune.schema.json'')\<rparr>
                      else s\<lparr>outputNeptuneSchemaFile :=
                             Str (to_string (outputFolderPath s) @ ''/''
                                  @ to_string (createUpdatePipelineName s)
                                  @ ''.neptune.schema.json'')\<rparr>)
                else s)
      in log (CallWriteFileSync (outputNeptuneSchemaFile s1) (inputGraphDBSchema s1)) s1)"

text \<open>Output Lambda resolver.\<close>

definition writeLambdaResolver :: "'m cli \<Rightarrow> 'm cli" where
  "writeLambdaResolver s =
     (let s1 = (if outputLambdaResolverFile s = Str ''''
                then s\<lparr>outputLambdaResolverFile :=
                       Str (to_string (outputFolderPath s) @ ''/output.resolver.graphql.js'')\<rparr>
                else s)
      in log (CallWriteFileSync (outputLambdaResolverFile s1) (Str (outputLambdaResolver s1))) s1)"

text \<open>Output Javascript resolver.\<close>

definition writeJSResolver :: "'m cli \<Rightarrow> 'm cli" where
  "writeJSResolver s =
     (let s1 = (if outputJSResolverFile s = Str ''''
                then (if createUpdatePipelineName s = Str ''''
                      then s\<lparr>outputJSResolverFile :=
                             Str (to_string (outputFolderPath s) @ ''/output.resolver.graphql.js'')\<rparr>
                      else s\<lparr>outputJSResolverFile :=
                             Str (to_string (outputFolderPath s) @ ''/''
                                  @ to_string (createUpdatePipelineName s)
                                  @ ''.resolver.graphql.js'')\<rparr>)
                else s)
      in log (CallWriteFileSync (outputJSResolverFile s1) (Str (outputJSResolver s1))) s1)"

text \<open>Output Lambda Zip file: the \<open>switch (queryClient)\<close> has the cases \<open>'http'\<close> and
  \<open>'sdk'\<close> and no default.\<close>

definition selectLambdaPackage :: "'m cli \<Rightarrow> 'm cli" where
  "selectLambdaPackage s =
     (if queryClient s = ''http''
      then s\<lparr>outputLambdaPackagePath := ''/../templates/Lambda4AppSyncHTTP''\<rparr>
      else if queryClient s = ''sdk''
      then (if neptuneType s = NEPTUNE_DB
            then s\<lparr>outputLambdaPackagePath := ''/../templates/Lambda4AppSyncSDK''\<rparr>
            else s\<lparr>outputLambdaPackagePath := ''/../templates/Lambda4AppSyncGraphSDK''\<rparr>)
      else s)"

definition createLambdaZipFile :: "'m env \<Rightarrow> 'm cli \<Rightarrow> 'm cli" where
  "createLambdaZipFile env s =
     (if \<not> (createUpdatePipeline s \<or> inputCDKpipeline s) \<and> createLambdaZip s
      then (let s1 = (if outputLambdaResolverZipFile s = Str ''''
                         \<and> outputLambdaResolverZipName s = Str ''''
                      then s\<lparr>outputLambdaResolverZipFile :=
                             Str (to_string (outputFolderPath s) @ ''/output.lambda.zip'')\<rparr>
                      else s);
                s2 = (if outputLambdaResolverZipFile s1 = Str ''''
                         \<and> outputLambdaResolverZipName s1 \<noteq> Str ''''
                      then s1\<lparr>outputLambdaResolverZipFile :=
                              Str (to_string (outputFolderPath s1) @ ''/''
                                   @ to_string (outputLambdaResolverZipName s1) @ ''.zip'')\<rparr>
                      else s1)
            in log (CallCreateLambdaDeploymentPackage (dirname env @ outputLambdaPackagePath s2)
                      (outputLambdaResolverZipFile s2)) s2)
      else s)"

text \<open>Create Update AWS Pipeline. The block is inside \<open>try\<close>: an exception (also the
  \<open>split\<close> of \<open>undefined\<close>) is caught and reported, \<open>process.exit\<close> is not.\<close>

definition pipelineArguments :: "'m env \<Rightarrow> 'm cli \<Rightarrow> string list \<Rightarrow> 'm pipeline_params" where
  "pipelineArguments env s endpointParts =
     \<lparr> pipelineName = createUpdatePipelineName s,
       neptuneDBName = createUpdatePipelineNeptuneDatabaseName s,
       neptuneDBregion = createUpdatePipelineRegion s,
       appSyncSchema = outputSchema s,
       schemaModelP = schemaModel s,
       lambdaFilesPath = dirname env @ outputLambdaPackagePath s,
       addMutations = outputSchemaMutations s,
       quietI = quiet s,
       dirnameP = dirname env,
       isNeptuneIAMAuthP = isNeptuneIAMAuth s,
       neptuneHost = endpointParts ! 0,
       neptunePort = js_index endpointParts 1,
       outputFolderPathP = outputFolderPath s,
       neptuneTypeP = neptuneType s \<rparr>"

definition createPipeline :: "'m env \<Rightarrow> 'm cli \<Rightarrow> 'm cli" where
  "createPipeline env s =
     (if createUpdatePipeline s
      then (case createUpdatePipelineEndpoint s of
              Undefined \<Rightarrow> s
            | Str endpoint \<Rightarrow>
                (let endpointParts = js_split CHR '':'' endpoint in
                 if length endpointParts < 2 then exit 1 s
                 else
                   (let args = pipelineArguments env s endpointParts;
                        s1 = log (CallCreateUpdateAWSpipeline args) s
                    in case runCreateUpdateAWSpipeline env args of
                         Returns \<Rightarrow> s1
                       | Throws \<Rightarrow> s1
                       | Exits code \<Rightarrow> exit code s1)))
      else s)"

text \<open>Output CDK.\<close>

definition cdkArguments :: "'m env \<Rightarrow> 'm cli \<Rightarrow> string list \<Rightarrow> 'm cdk_params" where
  "cdkArguments env s endpointParts =
     \<lparr> cdkPipelineName = inputCDKpipelineName s,
       cdkNeptuneDBName = inputCDKpipelineDatabaseName s,
       cdkNeptuneDBregion = inputCDKpipelineRegion s,
       cdkAppSyncSchema = outputSchema s,
       cdkSchemaModel = schemaModel s,
       cdkLambdaFilesPath = dirname env @ outputLambdaPackagePath s,
       cdkOutputFile = inputCDKpipelineFile s,
       cdkDirname = dirname env,
       cdkQuiet = quiet s,
       cdkIsNeptuneIAMAuth = isNeptuneIAMAuth s,
       cdkNeptuneHost = endpointParts ! 0,
       cdkNeptunePort = js_index endpointParts 1,
       cdkOutputFolderPath = outputFolderPath s,
       cdkNeptuneType = neptuneType s \<rparr>"

definition createCDK :: "'m env \<Rightarrow> 'm cli \<Rightarrow> 'm cli" where
  "createCDK env s =
     (if inputCDKpipeline s
      then (case inputCDKpipelineEnpoint s of
              Undefined \<Rightarrow> s
            | Str endpoint \<Rightarrow>
                (let endpointParts = js_split CHR '':'' endpoint in
                 if length endpointParts < 2 then exit 1 s
                 else
                   (let s1 = (if inputCDKpipelineFile s = Str ''''
                              then s\<lparr>inputCDKpipelineFile :=
                                     Str (to_string (outputFolderPath s) @ ''/''
                                          @ to_string (inputCDKpipelineName s) @ ''-cdk.js'')\<rparr>
                              else s);
                        args = cdkArguments env s1 endpointParts;
                        s2 = log (CallCreateAWSpipelineCDK args) s1
                    in case runCreateAWSpipelineCDK env args of
                         Returns \<Rightarrow> s2
                       | Throws \<Rightarrow> s2
                       | Exits code \<Rightarrow> exit code s2)))
      else s)"

definition outputs :: "'m env \<Rightarrow> 'm cli \<Rightarrow> 'm cli" where
  "outputs env s =
     (if inputGraphQLSchema s \<noteq> Str ''''
      then run_steps [writeSchema env, writeSourceSchema env, writeNeptuneSchema,
                      writeLambdaResolver, writeJSResolver, selectLambdaPackage,
                      createLambdaZipFile env, createPipeline env, createCDK env] s
      else s)"

text \<open>
  Remove AWS Pipeline: neither \<open>JSON.parse\<close> nor the call is inside \<open>try\<close>. The argument
  \<open>JSON.parse(resourcesToRemove)\<close> is evaluated first: when it throws,
  \<open>removeAWSpipelineResources\<close> is not called.
\<close>

definition removePipeline :: "'m env \<Rightarrow> 'm cli \<Rightarrow> 'm cli" where
  "removePipeline env s =
     (if removePipelineName s \<noteq> Str ''''
      then (let resourcesFile = to_string (outputFolderPath s) @ ''/''
                                @ to_string (removePipelineName s) @ ''-resources.json'';
                s1 = log (CallReadFileSync (Str resourcesFile)) s
            in case readFileSync env resourcesFile of
                 None \<Rightarrow> exit 1 s1
               | Some resourcesToRemove \<Rightarrow>
                   (if \<not> jsonParses env resourcesToRemove then throw s1
                    else (let s2 = log (CallRemoveAWSpipelineResources resourcesToRemove
                                          (quiet s1)) s1
                          in case runRemoveAWSpipelineResources env resourcesToRemove (quiet s1) of
                               Returns \<Rightarrow> s2
                             | Throws \<Rightarrow> throw s2
                             | Exits code \<Rightarrow> exit code s2)))
      else s)"

text \<open>The blocks of \<open>main\<close> after \<open>processArgs\<close> and before the changes, those up to
  the outputs, those of the outputs, and all of \<open>main\<close>.\<close>

definition inputBlocks :: "'m env \<Rightarrow> ('m cli \<Rightarrow> 'm cli) list" where
  "inputBlocks env =
     [loadGraphDBSchemaFile env, detectNeptuneType,
      getSchemaFromEndpoint env, inferGraphQLSchema env, loadGraphQLSchemaFile env,
      loadChangesFile env, pipelineOptions, cdkOptions]"

definition inputSteps :: "'m env \<Rightarrow> string list \<Rightarrow> ('m cli \<Rightarrow> 'm cli) list" where
  "inputSteps env argv = processArgs argv # inputBlocks env"

definition passSteps :: "'m env \<Rightarrow> ('m cli \<Rightarrow> 'm cli) list" where
  "passSteps env = [applyChanges env, parseValidateGenerate env, initOutputFolder env]"

definition outputSteps :: "'m env \<Rightarrow> ('m cli \<Rightarrow> 'm cli) list" where
  "outputSteps env = [outputs env, removePipeline env]"

definition main :: "'m env \<Rightarrow> string list \<Rightarrow> 'm cli" where
  "main env argv =
     (if length argv \<le> 2 then exit 0 (initial env)
      else run_steps (inputSteps env argv @ passSteps env @ outputSteps env) (initial env))"

section \<open>The run, block by block\<close>

text \<open>
  The blocks of \<open>main\<close> that are not sequences of other blocks: those before the
  outputs and those of the outputs. A list of such blocks covers a block of \<open>main\<close>
  when it has the block, or all the blocks that the block runs in sequence.
\<close>

definition inputAtoms :: "'m env \<Rightarrow> ('m cli \<Rightarrow> 'm cli) list" where
  "inputAtoms env =
     [loadGraphDBSchemaFile env, detectNeptuneType, getSchemaFromEndpoint env,
      inferGraphQLSchema env, loadGraphQLSchemaFile env, loadChangesFile env,
      pipelineDefaultEndpoint, pipelineRequired, pipelineFromEndpoint, pipelineDefaultName,
      cdkDefaultEndpoint, cdkRequired, cdkFromEndpoint, cdkDefaultName,
      applyChanges env, parseSchema env, validateSchema env, generateLambdaResolver env,
      generateJSResolver env, initOutputFolder env]"

definition outputAtoms :: "'m env \<Rightarrow> ('m cli \<Rightarrow> 'm cli) list" where
  "outputAtoms env =
     [writeSchema env, writeSourceSchema env, writeNeptuneSchema, writeLambdaResolver,
      writeJSResolver, selectLambdaPackage, createLambdaZipFile env, createPipeline env,
      createCDK env, removePipeline env]"

definition covers :: "('m cli \<Rightarrow> 'm cli) list \<Rightarrow> 'm env \<Rightarrow> ('m cli \<Rightarrow> 'm cli) \<Rightarrow> bool" where
  "covers A env f =
     (f \<in> set A
      \<or> (f = pipelineOptions
          \<and> set [pipelineDefaultEndpoint, pipelineRequired, pipelineFromEndpoint,
                  pipelineDefaultName] \<subseteq> set A)
      \<or> (f = cdkOptions
          \<and> set [cdkDefaultEndpoint, cdkRequired, cdkFromEndpoint, cdkDefaultName] \<subseteq> set A)
      \<or> (f = parseValidateGenerate env
          \<and> set [parseSchema env, validateSchema env, generateLambdaResolver env,
                  generateJSResolver env] \<subseteq> set A)
      \<or> (f = outputs env
          \<and> set [writeSchema env, writeSourceSchema env, writeNeptuneSchema,
                  writeLambdaResolver, writeJSResolver, selectLambdaPackage,
                  createLambdaZipFile env, createPipeline env, createCDK env] \<subseteq> set A))"

text \<open>The state after \<open>processArgs\<close>, the state in which \<open>main\<close> reaches
  \<open>// Apply changes\<close>, the state in which it reaches \<open>// Parse schema\<close>, and the state
  in which it reaches its outputs.\<close>

definition argsState :: "'m env \<Rightarrow> string list \<Rightarrow> 'm cli" where
  "argsState env argv = processArgs argv (initial env)"

definition inputState :: "'m env \<Rightarrow> string list \<Rightarrow> 'm cli" where
  "inputState env argv = run_steps (inputBlocks env) (argsState env argv)"


definition preState :: "'m env \<Rightarrow> string list \<Rightarrow> 'm cli" where
  "preState env argv = run_steps (passSteps env) (inputState env argv)"

text \<open>The Lambda deployment package a call is given, and what the
  \<open>switch (queryClient)\<close> of \<open>main\<close> selects.\<close>

definition lambdaPackageOf :: "'m call \<Rightarrow> string option" where
  "lambdaPackageOf c =
     (case c of
        CallCreateLambdaDeploymentPackage p z \<Rightarrow> Some p
      | CallCreateUpdateAWSpipeline a \<Rightarrow> Some (lambdaFilesPath a)
      | CallCreateAWSpipelineCDK a \<Rightarrow> Some (cdkLambdaFilesPath a)
      | _ \<Rightarrow> None)"

definition packageSelected :: "'m cli \<Rightarrow> bool" where
  "packageSelected s =
     ((queryClient s = ''http'' \<longrightarrow>
         outputLambdaPackagePath s = ''/../templates/Lambda4AppSyncHTTP'')
      \<and> (queryClient s = ''sdk'' \<longrightarrow>
         outputLambdaPackagePath s =
           (if neptuneType s = NEPTUNE_DB then ''/../templates/Lambda4AppSyncSDK''
            else ''/../templates/Lambda4AppSyncGraphSDK'')))"

definition noPackageCalls :: "'m cli \<Rightarrow> bool" where
  "noPackageCalls s = (\<forall>c\<in>set (calls s). lambdaPackageOf c = None)"

definition packageCallsSelected :: "'m env \<Rightarrow> 'm cli \<Rightarrow> bool" where
  "packageCallsSelected env s =
     (packageSelected s
      \<and> (\<forall>c\<in>set (calls s). \<forall>p. lambdaPackageOf c = Some p \<longrightarrow>
            p = dirname env @ outputLambdaPackagePath s))"

definition clientInvariant :: "'m cli \<Rightarrow> bool" where
  "clientInvariant s =
     (queryClient s \<in> {''sdk'', ''http'', ''client''}
      \<and> (\<forall>c\<in>set (calls s). \<forall>m l q d. c = CallResolverJS m l q d \<longrightarrow> q = queryClient s))"

text \<open>The calls of \<open>resolverJS\<close> in the trace, with the two resolver outputs and the
  selection they are generated for.\<close>

definition isResolverCall :: "'m call \<Rightarrow> bool" where
  "isResolverCall c = (case c of CallResolverJS m l q d \<Rightarrow> True | _ \<Rightarrow> False)"


text \<open>The Neptune type and the IAM flag a call is given.\<close>

definition callNeptuneType :: "'m call \<Rightarrow> string option" where
  "callNeptuneType c =
     (case c of
        CallSetGetNeptuneSchemaParameters h p r b t \<Rightarrow> Some t
      | CallCreateUpdateAWSpipeline a \<Rightarrow> Some (neptuneTypeP a)
      | CallCreateAWSpipelineCDK a \<Rightarrow> Some (cdkNeptuneType a)
      | _ \<Rightarrow> None)"

definition callIAMAuth :: "'m call \<Rightarrow> bool option" where
  "callIAMAuth c =
     (case c of
        CallCreateUpdateAWSpipeline a \<Rightarrow> Some (isNeptuneIAMAuthP a)
      | CallCreateAWSpipelineCDK a \<Rightarrow> Some (cdkIsNeptuneIAMAuth a)
      | _ \<Rightarrow> None)"

definition typeInvariant :: "string \<Rightarrow> bool \<Rightarrow> 'm cli \<Rightarrow> bool" where
  "typeInvariant T B s =
     (neptuneType s = T \<and> isNeptuneIAMAuth s = B
      \<and> (\<forall>c\<in>set (calls s). (\<forall>t. callNeptuneType c = Some t \<longrightarrow> t = T)
                              \<and> (\<forall>b. callIAMAuth c = Some b \<longrightarrow> b = B)))"

definition noTypeCalls :: "'m cli \<Rightarrow> bool" where
  "noTypeCalls s =
     (\<forall>c\<in>set (calls s). callNeptuneType c = None \<and> callIAMAuth c = None)"

text \<open>Kinds of calls, and their order in the trace.\<close>

definition isInferenceCall :: "'m call \<Rightarrow> bool" where
  "isInferenceCall c = (case c of CallGraphDBInferenceSchema g b \<Rightarrow> True | _ \<Rightarrow> False)"

definition isChangeCall :: "'m call \<Rightarrow> bool" where
  "isChangeCall c = (case c of CallChangeGraphQLSchema s t \<Rightarrow> True | _ \<Rightarrow> False)"

definition isParserCall :: "'m call \<Rightarrow> bool" where
  "isParserCall c = (case c of CallSchemaParser s \<Rightarrow> True | _ \<Rightarrow> False)"

definition isValidatorCall :: "'m call \<Rightarrow> bool" where
  "isValidatorCall c = (case c of CallValidatedSchemaModel m q \<Rightarrow> True | _ \<Rightarrow> False)"

text \<open>Some call with \<open>p\<close> comes before some call with \<open>q\<close>.\<close>

fun precedes :: "('a \<Rightarrow> bool) \<Rightarrow> ('a \<Rightarrow> bool) \<Rightarrow> 'a list \<Rightarrow> bool" where
  "precedes p q [] = False"
| "precedes p q (x # xs) = ((p x \<and> list_ex q xs) \<or> precedes p q xs)"

text \<open>The trace has grown from \<open>base\<close> by calls that satisfy \<open>ok\<close>.\<close>

definition extendsCalls :: "'m call list \<Rightarrow> ('m call \<Rightarrow> bool) \<Rightarrow> 'm cli \<Rightarrow> bool" where
  "extendsCalls base ok s =
     (length base \<le> length (calls s) \<and> take (length base) (calls s) = base
      \<and> (\<forall>c\<in>set (drop (length base) (calls s)). ok c))"

definition afterPasses :: "'m call \<Rightarrow> bool" where
  "afterPasses c = (\<not> isInferenceCall c \<and> \<not> isChangeCall c \<and> \<not> isParserCall c
                    \<and> \<not> isValidatorCall c)"

definition beforePasses :: "'m cli \<Rightarrow> bool" where
  "beforePasses s =
     (\<forall>c\<in>set (calls s). \<not> isChangeCall c \<and> \<not> isParserCall c \<and> \<not> isValidatorCall c)"

section \<open>Example runs\<close>

text \<open>An environment in which the schema model is a string, every collaborator returns,
  and only the file \<open>changes.json\<close> exists.\<close>

definition exampleEnv :: "string env" where
  "exampleEnv =
     \<lparr> dirname = ''/app/src'',
       emptyObject = ''{}'',
       readFileSync = (\<lambda>f. if f = ''changes.json'' then Some ''[remove A.x]'' else None),
       mkdirSync = (\<lambda>p. True),
       getNeptuneSchema = (\<lambda>h p r t q. Some ''{nodes}''),
       graphDBInferenceSchema = (\<lambda>g b. Some ''type A''),
       changeGraphQLSchema = (\<lambda>s c. Some (to_string s @ '' changed'')),
       schemaParser = (\<lambda>s. Some (''model of '' @ to_string s)),
       validatedSchemaModel = (\<lambda>m q. Some (''valid '' @ m)),
       resolverJS = (\<lambda>m l c d. Some (''resolver '' @ l @ '' '' @ c)),
       schemaStringify = (\<lambda>m b. Some (if b then ''directives '' @ m else ''plain '' @ m)),
       runCreateUpdateAWSpipeline = (\<lambda>a. Returns),
       runCreateAWSpipelineCDK = (\<lambda>a. Returns),
       jsonParses = (\<lambda>t. True),
       runRemoveAWSpipelineResources = (\<lambda>r q. Returns) \<rparr>"

definition argvClient :: "string list" where
  "argvClient = [''node'', ''main.js'', ''-is'', ''type A'', ''-orc'']"

definition argvClientPipeline :: "string list" where
  "argvClientPipeline = [''node'', ''main.js'', ''-is'', ''type A'', ''-orc'', ''-p'', ''-pe'',
                         ''db.cluster-abc.us-east-1.neptune.amazonaws.com:8182'']"

definition argvHttp :: "string list" where
  "argvHttp = [''node'', ''main.js'', ''-is'', ''type A'', ''-orh'']"

definition argvGraph :: "string list" where
  "argvGraph = [''node'', ''main.js'', ''-ie'',
                ''g-abc.us-west-2.neptune-graph.amazonaws.com:8182'', ''-p'']"

definition argvChanges :: "string list" where
  "argvChanges = [''node'', ''main.js'', ''-is'', ''type A'', ''-isc'', ''changes.json'']"

section \<open>Properties of util.js\<close>

lemma js_split_nonempty: "js_split c s \<noteq> []"
  by (induction s) (auto split: list.splits)

lemma last_three_join:
  assumes "3 \<le> length hp"
  shows "js_join ''.'' (take 3 (drop (length hp - 3) hp)) =
         hp ! (length hp - 3) @ ''.'' @ hp ! (length hp - 2) @ ''.'' @ hp ! (length hp - 1)"
proof -
  define n where "n = length hp - 3"
  have len: "length hp = n + 3"
    using assms by (simp add: n_def)
  have three: "\<exists>a b c. xs = [a, b, c]" if "length xs = Suc (Suc (Suc 0))" for xs :: "string list"
    using that by (auto simp: length_Suc_conv)
  have "length (drop n hp) = Suc (Suc (Suc 0))"
    by (simp add: len)
  from three [OF this] obtain a b c where abc: "drop n hp = [a, b, c]"
    by blast
  have "a = hp ! n" "b = hp ! (n + 1)" "c = hp ! (n + 2)"
    using abc len nth_drop [of n hp 0] nth_drop [of n hp 1] nth_drop [of n hp 2]
    by simp_all
  then show ?thesis
    using abc by (simp add: len n_def [symmetric])
qed

text \<open>
  C9. \<open>parseNeptuneDomainFromEndpoint(e)\<close> throws an Error unless \<open>e\<close> splits on
  \<open>:\<close> into exactly two parts and the host part (the first one) has at least five
  parts separated by \<open>.\<close>; when it returns, the result is what
  \<open>parseNeptuneDomainFromHost\<close> returns for the host part, and it is the last three
  parts of the host joined by \<open>.\<close>.
\<close>

theorem parseNeptuneDomainFromEndpoint_domain:
  "parseNeptuneDomainFromEndpoint (Str e) =
     (let parts = js_split CHR '':'' e;
          hp = js_split CHR ''.'' (parts ! 0);
          n = length hp
      in if length parts = 2 \<and> 5 \<le> n
         then Inr (hp ! (n - 3) @ ''.'' @ hp ! (n - 2) @ ''.'' @ hp ! (n - 1))
         else Inl Error)
   \<and> (\<forall>d. parseNeptuneDomainFromEndpoint (Str e) = Inr d \<longrightarrow>
          parseNeptuneDomainFromHost (js_split CHR '':'' e ! 0) = Inr d)"
proof -
  have host: "parseNeptuneDomainFromHost h =
      (let hp = js_split CHR ''.'' h; n = length hp
       in if 5 \<le> n
          then Inr (hp ! (n - 3) @ ''.'' @ hp ! (n - 2) @ ''.'' @ hp ! (n - 1))
          else Inl Error)" for h
    using last_three_join [of "js_split CHR ''.'' h"]
    by (simp add: parseNeptuneDomainFromHost_def splitHost_def js_splice_def Let_def
        MIN_HOST_PARTS_def NUM_DOMAIN_PARTS_def HOST_DELIMITER_def)
  show ?thesis
    by (auto simp: parseNeptuneDomainFromEndpoint_def ENDPOINT_DELIMITER_def host Let_def)
qed

theorem parseNeptuneDomainFromEndpoint_domain_witness:
  "parseNeptuneDomainFromEndpoint (Str ''g-abcdef.us-west-2.neptune-graph.amazonaws.com:8182'')
     = Inr ''neptune-graph.amazonaws.com''
   \<and> parseNeptuneDomainFromHost ''g-abcdef.us-west-2.neptune-graph.amazonaws.com''
     = Inr ''neptune-graph.amazonaws.com''"
  using parseNeptuneDomainFromEndpoint_domain
    [of "''g-abcdef.us-west-2.neptune-graph.amazonaws.com:8182''"]
  by (simp add: Let_def)

section \<open>Properties of main.js\<close>

subsection \<open>Invariants of the blocks\<close>

lemmas input_defs =
  loadGraphDBSchemaFile_def detectNeptuneType_def getSchemaFromEndpoint_def
  inferGraphQLSchema_def loadGraphQLSchemaFile_def loadChangesFile_def
  pipelineDefaultEndpoint_def pipelineRequired_def pipelineFromEndpoint_def pipelineDefaultName_def
  cdkDefaultEndpoint_def cdkRequired_def cdkFromEndpoint_def cdkDefaultName_def
  applyChanges_def parseSchema_def validateSchema_def generateLambdaResolver_def
  generateJSResolver_def initOutputFolder_def
  log_def exit_def throw_def Let_def

lemmas output_defs =
  writeSchema_def writeSourceSchema_def writeNeptuneSchema_def writeLambdaResolver_def
  writeJSResolver_def selectLambdaPackage_def createLambdaZipFile_def createPipeline_def
  createCDK_def removePipeline_def pipelineArguments_def cdkArguments_def
  log_def exit_def throw_def Let_def

lemma run_steps_stopped: "status s \<noteq> Running \<Longrightarrow> run_steps fs s = s"
  by (cases fs) auto

lemma run_steps_append: "run_steps (fs @ gs) s = run_steps gs (run_steps fs s)"
  by (induction fs arbitrary: s) (auto simp: run_steps_stopped)

lemma run_steps_inv:
  assumes "\<forall>f\<in>set fs. \<forall>s. I s \<longrightarrow> I (f s)" and "I s"
  shows "I (run_steps fs s)"
  using assms by (induction fs arbitrary: s) auto

lemma run_steps_sub:
  assumes "\<forall>f\<in>set A. \<forall>s. I s \<longrightarrow> I (f s)" and "set fs \<subseteq> set A" and "I s"
  shows "I (run_steps fs s)"
  using assms run_steps_inv [of fs I s] by blast

lemma forEachArg_inv:
  assumes "\<forall>i v s. I s \<longrightarrow> I (processArg array i v s)" and "I s"
  shows "I (forEachArg array index vals s)"
  using assms(2) by (induction vals arbitrary: index s) (auto simp: assms(1))

lemma processArgs_inv:
  assumes "\<forall>i v s. I s \<longrightarrow> I (processArg array i v s)" and "I s"
  shows "I (processArgs array s)"
  unfolding processArgs_def using assms by (rule forEachArg_inv)

lemma argsState_inv:
  assumes "\<forall>i v s. I s \<longrightarrow> I (processArg argv i v s)" and "I (initial env)"
  shows "I (argsState env argv)"
  unfolding argsState_def using assms by (rule processArgs_inv)

lemma processArg_calls: "calls (processArg array i v s) = calls s"
  by (simp add: processArg_def Let_def exit_def)

lemma argsState_calls: "calls (argsState env argv) = []"
  by (rule argsState_inv) (simp_all add: processArg_calls initial_def)

lemma covered_inv:
  assumes atomic: "\<forall>f\<in>set A. \<forall>s. I s \<longrightarrow> I (f s)"
    and f: "covers A env f" and s: "I s"
  shows "I (f s)"
proof -
  have sub: "I (run_steps fs s)" if "set fs \<subseteq> set A" for fs
    using atomic that s by (rule run_steps_sub)
  from f consider "f \<in> set A"
    | "f = pipelineOptions"
      "set [pipelineDefaultEndpoint, pipelineRequired, pipelineFromEndpoint,
            pipelineDefaultName] \<subseteq> set A"
    | "f = cdkOptions"
      "set [cdkDefaultEndpoint, cdkRequired, cdkFromEndpoint, cdkDefaultName] \<subseteq> set A"
    | "f = parseValidateGenerate env"
      "set [parseSchema env, validateSchema env, generateLambdaResolver env,
            generateJSResolver env] \<subseteq> set A"
    | "f = outputs env"
      "set [writeSchema env, writeSourceSchema env, writeNeptuneSchema,
            writeLambdaResolver, writeJSResolver, selectLambdaPackage,
            createLambdaZipFile env, createPipeline env, createCDK env] \<subseteq> set A"
    unfolding covers_def by blast
  then show ?thesis
  proof cases
    case 1 then show ?thesis using atomic s by blast
  next
    case 2 then show ?thesis using sub [OF 2(2)] s by (simp add: pipelineOptions_def)
  next
    case 3 then show ?thesis using sub [OF 3(2)] s by (simp add: cdkOptions_def)
  next
    case 4 then show ?thesis using sub [OF 4(2)] s by (simp add: parseValidateGenerate_def)
  next
    case 5 then show ?thesis using sub [OF 5(2)] s by (simp add: outputs_def)
  qed
qed

lemma covered_steps_inv:
  assumes atomic: "\<forall>f\<in>set A. \<forall>s. I s \<longrightarrow> I (f s)"
    and fs: "\<forall>f\<in>set fs. covers A env f" and s: "I s"
  shows "I (run_steps fs s)"
proof (rule run_steps_inv [where I = I, OF _ s])
  show "\<forall>f\<in>set fs. \<forall>s. I s \<longrightarrow> I (f s)"
    using covered_inv [OF atomic] fs by blast
qed

lemma initial_running: "status (initial env) = Running"
  by (simp add: initial_def)

lemma main_phases:
  "main env argv =
     (if length argv \<le> 2 then exit 0 (initial env)
      else run_steps (outputSteps env) (preState env argv))"
  by (simp add: main_def preState_def inputState_def argsState_def inputSteps_def
      run_steps_append initial_running)

lemma inputState_inv:
  assumes atomic: "\<forall>f\<in>set (inputAtoms env). \<forall>s. I s \<longrightarrow> I (f s)"
    and start: "I (argsState env argv)"
  shows "I (inputState env argv)"
  unfolding inputState_def
  by (rule covered_steps_inv [where env = env, OF atomic _ start])
    (simp add: inputBlocks_def inputAtoms_def covers_def)

lemma preState_inv:
  assumes atomic: "\<forall>f\<in>set (inputAtoms env). \<forall>s. I s \<longrightarrow> I (f s)"
    and start: "I (argsState env argv)"
  shows "I (preState env argv)"
  unfolding preState_def
  by (rule covered_steps_inv [where env = env, OF atomic _ inputState_inv [OF atomic start]])
    (simp add: passSteps_def inputAtoms_def covers_def)

lemma outputSteps_inv:
  assumes atomic: "\<forall>f\<in>set (outputAtoms env). \<forall>s. I s \<longrightarrow> I (f s)"
    and s: "I s"
  shows "I (run_steps (outputSteps env) s)"
  by (rule covered_steps_inv [where env = env, OF atomic _ s])
    (simp add: outputSteps_def outputAtoms_def covers_def)

lemma main_inv:
  assumes atomic: "\<forall>f\<in>set (inputAtoms env @ outputAtoms env). \<forall>s. I s \<longrightarrow> I (f s)"
    and start: "I (argsState env argv)"
    and stop: "I (exit 0 (initial env))"
  shows "I (main env argv)"
proof -
  have a1: "\<forall>f\<in>set (inputAtoms env). \<forall>s. I s \<longrightarrow> I (f s)"
    using atomic by simp
  have a2: "\<forall>f\<in>set (outputAtoms env). \<forall>s. I s \<longrightarrow> I (f s)"
    using atomic by simp
  have "I (run_steps (outputSteps env) (preState env argv))"
    by (rule outputSteps_inv [OF a2 preState_inv [OF a1 start]])
  then show ?thesis
    by (simp add: main_phases stop)
qed

subsection \<open>The execution client and the Lambda package\<close>

lemma client_main: "clientInvariant (main env argv)"
proof (rule main_inv)
  show "\<forall>f\<in>set (inputAtoms env @ outputAtoms env). \<forall>s. clientInvariant s \<longrightarrow> clientInvariant (f s)"
    unfolding inputAtoms_def outputAtoms_def clientInvariant_def
    by (auto simp: input_defs output_defs
        split: if_splits option.splits jsval.splits outcome.splits sum.splits)
  have "calls (argsState env argv) = []
      \<and> queryClient (argsState env argv) \<in> {''sdk'', ''http'', ''client''}"
    by (rule argsState_inv) (simp_all add: processArg_def Let_def exit_def initial_def)
  then show "clientInvariant (argsState env argv)"
    by (simp add: clientInvariant_def)
  show "clientInvariant (exit 0 (initial env))"
    by (simp add: clientInvariant_def exit_def initial_def)
qed

lemma noPackageCalls_preState: "noPackageCalls (preState env argv)"
proof (rule preState_inv)
  show "noPackageCalls (argsState env argv)"
    by (simp add: noPackageCalls_def argsState_calls)
  show "\<forall>f\<in>set (inputAtoms env). \<forall>s. noPackageCalls s \<longrightarrow> noPackageCalls (f s)"
    unfolding inputAtoms_def noPackageCalls_def
    by (auto simp: input_defs lambdaPackageOf_def
        split: if_splits option.splits jsval.splits sum.splits)
qed

lemma noPackageCalls_writes:
  "\<forall>f\<in>set [writeSchema env, writeSourceSchema env, writeNeptuneSchema,
             writeLambdaResolver, writeJSResolver, removePipeline env].
     \<forall>s. noPackageCalls s \<longrightarrow> noPackageCalls (f s)"
  unfolding noPackageCalls_def
  by (auto simp: output_defs lambdaPackageOf_def
      split: if_splits option.splits jsval.splits outcome.splits)

lemma selectLambdaPackage_selected:
  "noPackageCalls s \<Longrightarrow> packageCallsSelected env (selectLambdaPackage s)"
  by (simp add: noPackageCalls_def packageCallsSelected_def packageSelected_def
      selectLambdaPackage_def)

lemma package_frame:
  assumes "f \<in> set [createLambdaZipFile env, createPipeline env, createCDK env,
                     removePipeline env]"
  shows "queryClient (f s) = queryClient s \<and> neptuneType (f s) = neptuneType s
     \<and> outputLambdaPackagePath (f s) = outputLambdaPackagePath s
     \<and> (\<forall>c\<in>set (calls (f s)). c \<in> set (calls s) \<or> lambdaPackageOf c = None
           \<or> lambdaPackageOf c = Some (dirname env @ outputLambdaPackagePath s))"
  using assms
  by (auto simp: output_defs lambdaPackageOf_def
      split: if_splits option.splits jsval.splits outcome.splits)

lemma packageCallsSelected_steps:
  "\<forall>f\<in>set [createLambdaZipFile env, createPipeline env, createCDK env, removePipeline env].
     \<forall>s. packageCallsSelected env s \<longrightarrow> packageCallsSelected env (f s)"
proof (intro ballI allI impI)
  fix f and s :: "'a cli"
  assume f: "f \<in> set [createLambdaZipFile env, createPipeline env, createCDK env,
                     removePipeline env]"
    and s: "packageCallsSelected env s"
  note fr = package_frame [OF f, of s]
  show "packageCallsSelected env (f s)"
    unfolding packageCallsSelected_def packageSelected_def
  proof (intro conjI ballI allI impI)
    fix c p
    assume "c \<in> set (calls (f s))" "lambdaPackageOf c = Some p"
    then show "p = dirname env @ outputLambdaPackagePath (f s)"
      using fr s by (auto simp: packageCallsSelected_def)
  qed (use fr s in \<open>auto simp: packageCallsSelected_def packageSelected_def\<close>)
qed

lemma outputs_packages:
  assumes "noPackageCalls s"
  shows "noPackageCalls (outputs env s) \<or> packageCallsSelected env (outputs env s)"
proof (cases "inputGraphQLSchema s \<noteq> Str ''''")
  case False
  then show ?thesis using assms by (simp add: outputs_def)
next
  case True
  define w where "w = run_steps [writeSchema env, writeSourceSchema env, writeNeptuneSchema,
                      writeLambdaResolver, writeJSResolver] s"
  have "outputs env s =
      run_steps ([writeSchema env, writeSourceSchema env, writeNeptuneSchema,
                  writeLambdaResolver, writeJSResolver]
                 @ [selectLambdaPackage]
                 @ [createLambdaZipFile env, createPipeline env, createCDK env]) s"
    using True by (simp add: outputs_def)
  then have split: "outputs env s =
      run_steps [createLambdaZipFile env, createPipeline env, createCDK env]
        (run_steps [selectLambdaPackage] w)"
    unfolding run_steps_append w_def .
  have w: "noPackageCalls w"
    unfolding w_def
    by (rule run_steps_sub [where I = noPackageCalls, OF noPackageCalls_writes [of env] _ assms])
      auto
  show ?thesis
  proof (cases "status w = Running")
    case False
    then show ?thesis using w by (simp add: split run_steps_stopped)
  next
    case True
    then have "packageCallsSelected env (run_steps [selectLambdaPackage] w)"
      using w by (simp add: selectLambdaPackage_selected)
    then have "packageCallsSelected env (outputs env s)"
      unfolding split
      by (rule run_steps_sub [where I = "packageCallsSelected env",
            OF packageCallsSelected_steps [of env], rotated]) auto
    then show ?thesis ..
  qed
qed

lemma main_packages:
  "noPackageCalls (main env argv) \<or> packageCallsSelected env (main env argv)"
proof (cases "length argv \<le> 2")
  case True
  then show ?thesis
    by (simp add: main_def noPackageCalls_def exit_def initial_def)
next
  case False
  let ?p = "preState env argv"
  let ?o = "outputs env ?p"
  have o: "noPackageCalls ?o \<or> packageCallsSelected env ?o"
    using noPackageCalls_preState by (rule outputs_packages)
  have m: "main env argv =
      (if status ?p = Running
       then (if status ?o = Running then removePipeline env ?o else ?o)
       else ?p)"
    using False by (simp add: main_phases outputSteps_def)
  have r1: "noPackageCalls ?o \<Longrightarrow> noPackageCalls (removePipeline env ?o)"
    using noPackageCalls_writes [of env] by simp
  have r2: "packageCallsSelected env ?o \<Longrightarrow> packageCallsSelected env (removePipeline env ?o)"
    using packageCallsSelected_steps [of env] by simp
  show ?thesis
    unfolding m using o r1 r2 noPackageCalls_preState [of env argv] by presburger
qed

text \<open>
  What holds of the client in every run. The client handed to \<open>resolverJS\<close> is the value
  of \<open>queryClient\<close>, and no option gives it a value other than \<open>sdk\<close>, \<open>http\<close> and
  \<open>client\<close>. For \<open>http\<close> and for \<open>sdk\<close> every Lambda package path handed to the ZIP
  step, to \<open>createUpdateAWSpipeline\<close> or to \<open>createAWSpipelineCDK\<close> is the selected
  one: \<open>Lambda4AppSyncHTTP\<close> for \<open>http\<close>, and for \<open>sdk\<close> \<open>Lambda4AppSyncSDK\<close> with
  \<open>neptune-db\<close> and \<open>Lambda4AppSyncGraphSDK\<close> otherwise.
\<close>

theorem resolver_client_and_package:
  "(let f = main env argv in
     queryClient f \<in> {''sdk'', ''http'', ''client''}
     \<and> (\<forall>c\<in>set (calls f). \<forall>m l q d. c = CallResolverJS m l q d \<longrightarrow> q = queryClient f)
     \<and> (\<forall>c\<in>set (calls f). \<forall>p. lambdaPackageOf c = Some p \<longrightarrow>
           (queryClient f = ''http'' \<longrightarrow>
              p = dirname env @ ''/../templates/Lambda4AppSyncHTTP'')
           \<and> (queryClient f = ''sdk'' \<longrightarrow>
              p = dirname env @ (if neptuneType f = NEPTUNE_DB
                                then ''/../templates/Lambda4AppSyncSDK''
                                else ''/../templates/Lambda4AppSyncGraphSDK''))))"
proof -
  define f where "f = main env argv"
  have c: "clientInvariant f"
    unfolding f_def by (rule client_main)
  have p: "noPackageCalls f \<or> packageCallsSelected env f"
    unfolding f_def by (rule main_packages)
  have "(queryClient f = ''http'' \<longrightarrow> p = dirname env @ ''/../templates/Lambda4AppSyncHTTP'')
     \<and> (queryClient f = ''sdk'' \<longrightarrow>
          p = dirname env @ (if neptuneType f = NEPTUNE_DB
                            then ''/../templates/Lambda4AppSyncSDK''
                            else ''/../templates/Lambda4AppSyncGraphSDK''))"
    if "c \<in> set (calls f)" "lambdaPackageOf c = Some p" for c p
    using p that
    by (auto simp: noPackageCalls_def packageCallsSelected_def packageSelected_def)
  then show ?thesis
    using c by (simp add: clientInvariant_def f_def [symmetric] Let_def)
qed

theorem resolver_client_and_package_witness:
  "CallCreateLambdaDeploymentPackage ''/app/src/../templates/Lambda4AppSyncHTTP''
       (Str ''./output/output.lambda.zip'') \<in> set (calls (main exampleEnv argvHttp))
   \<and> queryClient (main exampleEnv argvHttp) = ''http''
   \<and> ''/app/src/../templates/Lambda4AppSyncHTTP''
       = dirname exampleEnv @ ''/../templates/Lambda4AppSyncHTTP''"
proof -
  let ?c = "CallCreateLambdaDeploymentPackage ''/app/src/../templates/Lambda4AppSyncHTTP''
       (Str ''./output/output.lambda.zip'') :: string call"
  have mem: "?c \<in> set (calls (main exampleEnv argvHttp))"
    by code_simp
  have qc: "queryClient (main exampleEnv argvHttp) = ''http''"
    by code_simp
  have pk: "lambdaPackageOf ?c = Some ''/app/src/../templates/Lambda4AppSyncHTTP''"
    by (simp add: lambdaPackageOf_def)
  have "''/app/src/../templates/Lambda4AppSyncHTTP''
       = dirname exampleEnv @ ''/../templates/Lambda4AppSyncHTTP''"
    using resolver_client_and_package [of exampleEnv argvHttp] mem qc pk
    unfolding Let_def by blast
  then show ?thesis
    using mem qc by blast
qed

text \<open>
  C3 fails in the code at the option \<open>-orc\<close> (\<open>--output-resolver-query-client\<close>),
  which sets \<open>queryClient = 'client'\<close>. The declaration of \<open>queryClient\<close> is commented
  \<open>'sdk' // or 'http'\<close> and the switch that selects the Lambda package has the cases
  \<open>'http'\<close> and \<open>'sdk'\<close> only. At \<open>-orc\<close> the resolver generator is handed
  \<open>client\<close>, no package path is selected, and the ZIP step, and with \<open>-p\<close> the pipeline,
  are given the directory of \<open>main.js\<close> itself as the Lambda package.
\<close>

theorem resolver_client_unhandled:
  "filter isResolverCall (calls (main exampleEnv argvClient))
     = [CallResolverJS ''valid model of type A'' ''opencypher'' ''client'' ''/app/src'',
        CallResolverJS ''valid model of type A'' ''opencypher'' ''client'' ''/app/src'']
   \<and> ''client'' \<notin> {''sdk'', ''http''}
   \<and> outputLambdaPackagePath (main exampleEnv argvClient) = ''''
   \<and> CallCreateLambdaDeploymentPackage ''/app/src'' (Str ''./output/output.lambda.zip'')
       \<in> set (calls (main exampleEnv argvClient))
   \<and> status (main exampleEnv argvClient) = Running
   \<and> map lambdaPackageOf
         (filter (\<lambda>c. lambdaPackageOf c \<noteq> None) (calls (main exampleEnv argvClientPipeline)))
       = [Some ''/app/src'']
   \<and> queryClient (main exampleEnv argvClientPipeline) = ''client''"
  by code_simp

subsection \<open>The two resolver outputs\<close>

lemma main_from_inputState:
  "main env argv =
     (if length argv \<le> 2 then exit 0 (initial env)
      else run_steps [initOutputFolder env, outputs env, removePipeline env]
             (run_steps [parseValidateGenerate env]
                (run_steps [applyChanges env] (inputState env argv))))"
proof -
  have "passSteps env @ outputSteps env =
      [applyChanges env] @ [parseValidateGenerate env]
        @ [initOutputFolder env, outputs env, removePipeline env]"
    by (simp add: passSteps_def outputSteps_def)
  then have "run_steps (outputSteps env) (preState env argv) =
      run_steps [initOutputFolder env, outputs env, removePipeline env]
             (run_steps [parseValidateGenerate env]
                (run_steps [applyChanges env] (inputState env argv)))"
    unfolding preState_def run_steps_append [symmetric] by simp
  then show ?thesis
    by (simp only: main_phases)
qed








subsection \<open>Detection of Neptune Analytics\<close>

lemma main_from_argsState:
  "main env argv =
     (if length argv \<le> 2 then exit 0 (initial env)
      else run_steps (drop 2 (inputBlocks env) @ passSteps env @ outputSteps env)
             (run_steps [detectNeptuneType]
                (run_steps [loadGraphDBSchemaFile env] (argsState env argv))))"
proof -
  have "inputBlocks env = [loadGraphDBSchemaFile env] @ [detectNeptuneType] @ drop 2 (inputBlocks env)"
    by (simp add: inputBlocks_def)
  then have "run_steps (inputBlocks env) (argsState env argv) =
      run_steps (drop 2 (inputBlocks env))
        (run_steps [detectNeptuneType] (run_steps [loadGraphDBSchemaFile env] (argsState env argv)))"
    using run_steps_append by metis
  then show ?thesis
    by (simp only: main_phases preState_def inputState_def run_steps_append)
qed

lemma argsState_neptuneType: "neptuneType (argsState env argv) = NEPTUNE_DB"
  by (rule argsState_inv) (simp_all add: processArg_def Let_def exit_def initial_def)

lemma typeInvariant_later:
  "\<forall>f\<in>set (tl (tl (inputAtoms env)) @ outputAtoms env).
     \<forall>s. typeInvariant T B s \<longrightarrow> typeInvariant T B (f s)"
  unfolding inputAtoms_def outputAtoms_def typeInvariant_def
  by (auto simp: input_defs output_defs callNeptuneType_def callIAMAuth_def
      split: if_splits option.splits jsval.splits outcome.splits sum.splits)

lemma loadGraphDBSchemaFile_frame:
  "neptuneType (loadGraphDBSchemaFile env s) = neptuneType s
   \<and> isNeptuneIAMAuth (loadGraphDBSchemaFile env s) = isNeptuneIAMAuth s
   \<and> nonEmptyEndpoints (loadGraphDBSchemaFile env s) = nonEmptyEndpoints s
   \<and> (noTypeCalls s \<longrightarrow> noTypeCalls (loadGraphDBSchemaFile env s))"
  by (auto simp: loadGraphDBSchemaFile_def nonEmptyEndpoints_def noTypeCalls_def log_def exit_def
      callNeptuneType_def callIAMAuth_def Let_def split: option.splits)

lemma detect_typeInvariant:
  assumes "noTypeCalls s" and "neptuneType s = NEPTUNE_DB"
  shows "(let g = (case nonEmptyEndpoints s of
                     [] \<Rightarrow> False
                   | e # rest \<Rightarrow>
                       (case parseNeptuneDomainFromEndpoint e of
                          Inl x \<Rightarrow> False
                        | Inr d \<Rightarrow> js_includes d NEPTUNE_GRAPH))
          in typeInvariant (if g then NEPTUNE_GRAPH else NEPTUNE_DB) (g \<or> isNeptuneIAMAuth s)
               (detectNeptuneType s))"
  using assms
  by (auto simp: detectNeptuneType_def isNeptuneAnalyticsGraph_def typeInvariant_def
      noTypeCalls_def throw_def split: list.splits sum.splits)

lemma main_typeInvariant:
  fixes env :: "'m env" and argv :: "string list"
  defines "s0 \<equiv> argsState env argv"
  defines "g \<equiv> (case nonEmptyEndpoints s0 of
                     [] \<Rightarrow> False
                   | e # rest \<Rightarrow>
                       (case parseNeptuneDomainFromEndpoint e of
                          Inl x \<Rightarrow> False
                        | Inr d \<Rightarrow> js_includes d NEPTUNE_GRAPH))"
  shows "if 2 < length argv \<and> status (run_steps [loadGraphDBSchemaFile env] s0) = Running
         then typeInvariant (if g then NEPTUNE_GRAPH else NEPTUNE_DB) (g \<or> isNeptuneIAMAuth s0)
                (main env argv)
         else noTypeCalls (main env argv)"
proof (cases "length argv \<le> 2")
  case True
  then show ?thesis
    by (simp add: main_def noTypeCalls_def exit_def initial_def)
next
  case False
  define s1 where "s1 = run_steps [loadGraphDBSchemaFile env] s0"
  define s2 where "s2 = run_steps [detectNeptuneType] s1"
  have m: "main env argv =
      run_steps (drop 2 (inputBlocks env) @ passSteps env @ outputSteps env) s2"
    using False by (simp only: main_from_argsState s2_def s1_def s0_def if_False)
  have n0: "noTypeCalls s0"
    by (simp add: noTypeCalls_def s0_def argsState_calls)
  have s1: "noTypeCalls s1" "neptuneType s1 = NEPTUNE_DB"
    "isNeptuneIAMAuth s1 = isNeptuneIAMAuth s0" "nonEmptyEndpoints s1 = nonEmptyEndpoints s0"
    using n0 loadGraphDBSchemaFile_frame [of env s0] argsState_neptuneType [of env argv]
    by (auto simp: s1_def s0_def)
  show ?thesis
  proof (cases "status s1 = Running")
    case False
    then have "main env argv = s1"
      by (simp add: m s2_def run_steps_stopped)
    then show ?thesis
      unfolding s1_def [symmetric] using s1(1) False by simp
  next
    case True
    have "typeInvariant (if g then NEPTUNE_GRAPH else NEPTUNE_DB) (g \<or> isNeptuneIAMAuth s0) s2"
      using detect_typeInvariant [OF s1(1) s1(2)] True
      by (simp add: s2_def s1(3) s1(4) g_def Let_def)
    then have "typeInvariant (if g then NEPTUNE_GRAPH else NEPTUNE_DB) (g \<or> isNeptuneIAMAuth s0)
        (main env argv)"
      unfolding m
      by (rule covered_steps_inv [where env = env, OF typeInvariant_later [of env], rotated])
        (simp add: inputBlocks_def passSteps_def outputSteps_def inputAtoms_def
          outputAtoms_def covers_def)
    then show ?thesis
      unfolding s1_def [symmetric] using True False by simp
  qed
qed

text \<open>
  C10. Only the first endpoint that is not \<open>''\<close> among the introspection, the pipeline
  and the CDK endpoint counts: when its parsed domain contains \<open>neptune-graph\<close>, every
  call of the run that is given a Neptune type is given \<open>neptune-graph\<close>, and every
  call that is given the IAM flag is given \<open>true\<close>, whatever the IAM options were;
  otherwise they are given \<open>neptune-db\<close> and the flag as \<open>processArgs\<close> left it.
  Once \<open>main\<close> has reached the detection, the two variables keep these values to the
  end of the run.
\<close>

theorem neptune_type_detection:
  "(let s0 = argsState env argv;
        f = main env argv;
        g = (case nonEmptyEndpoints s0 of
               [] \<Rightarrow> False
             | e # rest \<Rightarrow>
                 (case parseNeptuneDomainFromEndpoint e of
                    Inl x \<Rightarrow> False
                  | Inr d \<Rightarrow> js_includes d NEPTUNE_GRAPH))
    in (\<forall>c\<in>set (calls f).
          (\<forall>t. callNeptuneType c = Some t \<longrightarrow> t = (if g then NEPTUNE_GRAPH else NEPTUNE_DB))
          \<and> (\<forall>b. callIAMAuth c = Some b \<longrightarrow> b = (g \<or> isNeptuneIAMAuth s0)))
       \<and> (2 < length argv \<and> status (run_steps [loadGraphDBSchemaFile env] s0) = Running \<longrightarrow>
            neptuneType f = (if g then NEPTUNE_GRAPH else NEPTUNE_DB)
            \<and> isNeptuneIAMAuth f = (g \<or> isNeptuneIAMAuth s0)))"
proof -
  define s0 where "s0 = argsState env argv"
  define f where "f = main env argv"
  define g where "g = (case nonEmptyEndpoints s0 of
               [] \<Rightarrow> False
             | e # rest \<Rightarrow>
                 (case parseNeptuneDomainFromEndpoint e of
                    Inl x \<Rightarrow> False
                  | Inr d \<Rightarrow> js_includes d NEPTUNE_GRAPH))"
  have inv: "if 2 < length argv \<and> status (run_steps [loadGraphDBSchemaFile env] s0) = Running
         then typeInvariant (if g then NEPTUNE_GRAPH else NEPTUNE_DB) (g \<or> isNeptuneIAMAuth s0) f
         else noTypeCalls f"
    unfolding s0_def f_def g_def by (rule main_typeInvariant)
  have "(\<forall>c\<in>set (calls f).
          (\<forall>t. callNeptuneType c = Some t \<longrightarrow> t = (if g then NEPTUNE_GRAPH else NEPTUNE_DB))
          \<and> (\<forall>b. callIAMAuth c = Some b \<longrightarrow> b = (g \<or> isNeptuneIAMAuth s0)))
       \<and> (2 < length argv \<and> status (run_steps [loadGraphDBSchemaFile env] s0) = Running \<longrightarrow>
            neptuneType f = (if g then NEPTUNE_GRAPH else NEPTUNE_DB)
            \<and> isNeptuneIAMAuth f = (g \<or> isNeptuneIAMAuth s0))"
  proof (cases "2 < length argv \<and> status (run_steps [loadGraphDBSchemaFile env] s0) = Running")
    case True
    with inv have "typeInvariant (if g then NEPTUNE_GRAPH else NEPTUNE_DB)
        (g \<or> isNeptuneIAMAuth s0) f"
      by simp
    then show ?thesis
      unfolding typeInvariant_def by blast
  next
    case False
    with inv have "noTypeCalls f"
      by simp
    then show ?thesis
      using False unfolding noTypeCalls_def by auto
  qed
  then show ?thesis
    unfolding Let_def s0_def f_def g_def .
qed

theorem neptune_type_detection_witness:
  "2 < length argvGraph
   \<and> status (run_steps [loadGraphDBSchemaFile exampleEnv] (argsState exampleEnv argvGraph)) = Running
   \<and> isNeptuneIAMAuth (argsState exampleEnv argvGraph) = False
   \<and> neptuneType (main exampleEnv argvGraph) = ''neptune-graph''
   \<and> isNeptuneIAMAuth (main exampleEnv argvGraph) = True"
proof -
  have g: "(case nonEmptyEndpoints (argsState exampleEnv argvGraph) of
               [] \<Rightarrow> False
             | e # rest \<Rightarrow>
                 (case parseNeptuneDomainFromEndpoint e of
                    Inl x \<Rightarrow> False
                  | Inr d \<Rightarrow> js_includes d NEPTUNE_GRAPH)) = True"
    by code_simp
  have pre: "2 < length argvGraph"
    "status (run_steps [loadGraphDBSchemaFile exampleEnv] (argsState exampleEnv argvGraph)) = Running"
    "isNeptuneIAMAuth (argsState exampleEnv argvGraph) = False"
    by code_simp+
  have "neptuneType (main exampleEnv argvGraph) = NEPTUNE_GRAPH
      \<and> isNeptuneIAMAuth (main exampleEnv argvGraph) = True"
    using neptune_type_detection [of exampleEnv argvGraph] pre
    unfolding Let_def g by simp
  then show ?thesis
    using pre by (simp add: NEPTUNE_GRAPH_def)
qed

subsection \<open>The changes and the parser\<close>

lemmas call_kinds = isInferenceCall_def isChangeCall_def isParserCall_def isValidatorCall_def

lemma extendsCalls_rest:
  "extendsCalls base ok s \<Longrightarrow> \<exists>rest. calls s = base @ rest \<and> (\<forall>c\<in>set rest. ok c)"
  unfolding extendsCalls_def
  by (metis append_take_drop_id)

lemma extendsCalls_later:
  "\<forall>f\<in>set (initOutputFolder env # outputAtoms env).
     \<forall>s. extendsCalls base afterPasses s \<longrightarrow> extendsCalls base afterPasses (f s)"
  unfolding outputAtoms_def extendsCalls_def afterPasses_def
  by (auto simp: initOutputFolder_def output_defs call_kinds
      split: if_splits option.splits jsval.splits outcome.splits)

lemma beforePasses_inputState: "beforePasses (inputState env argv)"
proof -
  let ?A = "[loadGraphDBSchemaFile env, detectNeptuneType, getSchemaFromEndpoint env,
      inferGraphQLSchema env, loadGraphQLSchemaFile env, loadChangesFile env,
      pipelineDefaultEndpoint, pipelineRequired, pipelineFromEndpoint, pipelineDefaultName,
      cdkDefaultEndpoint, cdkRequired, cdkFromEndpoint, cdkDefaultName]"
  have start: "beforePasses (argsState env argv)"
    by (simp add: beforePasses_def argsState_calls)
  have atomic: "\<forall>f\<in>set ?A. \<forall>s. beforePasses s \<longrightarrow> beforePasses (f s)"
    unfolding beforePasses_def
    by (auto simp: input_defs call_kinds split: if_splits option.splits jsval.splits sum.splits)
  show ?thesis
    unfolding inputState_def
    by (rule covered_steps_inv [where A = ?A and env = env, OF atomic _ start])
      (simp add: inputBlocks_def covers_def)
qed

lemma passes_calls:
  assumes "status s = Running" and "inputGraphQLSchemaChanges s \<noteq> ''''"
  shows "extendsCalls
           (calls s
            @ [CallChangeGraphQLSchema (inputGraphQLSchema s) (inputGraphQLSchemaChanges s)]
            @ (case changeGraphQLSchema env (inputGraphQLSchema s)
                      (inputGraphQLSchemaChanges s) of
                 None \<Rightarrow> []
               | Some sdl \<Rightarrow>
                   if sdl = '''' then []
                   else CallSchemaParser (Str sdl)
                        # (case schemaParser env (Str sdl) of
                             None \<Rightarrow> []
                           | Some m \<Rightarrow> [CallValidatedSchemaModel m (quiet s)])))
           afterPasses
           (run_steps [parseValidateGenerate env] (run_steps [applyChanges env] s))"
proof (cases "changeGraphQLSchema env (inputGraphQLSchema s) (inputGraphQLSchemaChanges s)")
  case None
  then show ?thesis
    using assms
    by (simp add: extendsCalls_def applyChanges_def log_def throw_def Let_def)
next
  case changed: (Some sdl)
  show ?thesis
  proof (cases "sdl = ''''")
    case True
    then show ?thesis
      using assms changed
      by (simp add: extendsCalls_def applyChanges_def parseValidateGenerate_def log_def Let_def)
  next
    case False
    show ?thesis
    proof (cases "schemaParser env (Str sdl)")
      case None
      then show ?thesis
        using assms changed False
        by (simp add: extendsCalls_def applyChanges_def parseValidateGenerate_def
            parseSchema_def log_def throw_def Let_def)
    next
      case (Some m)
      then show ?thesis
        using assms changed False
        unfolding extendsCalls_def afterPasses_def parseValidateGenerate_def
        by (auto simp: applyChanges_def parseSchema_def validateSchema_def
            generateLambdaResolver_def generateJSResolver_def log_def throw_def Let_def
            call_kinds split: option.splits)
    qed
  qed
qed

text \<open>
  C1, as the code has it. In every run with arguments that reaches \<open>// Apply changes\<close>
  (it has neither exited nor thrown before) with a non-empty change script loaded,
  \<open>changeGraphQLSchema\<close> is called there, on the SDL text that was inferred or loaded
  before and the change script. When it returns a non-empty text, \<open>schemaParser\<close> is
  called next, on that text, and when the parser returns, \<open>validatedSchemaModel\<close> is
  called next, on the parsed model. No change, parser or validator call comes before
  these, and no inference, change, parser or validator call comes after them.
\<close>

theorem changes_before_parse:
  assumes "2 < length argv"
    and "status (inputState env argv) = Running"
    and "inputGraphQLSchemaChanges (inputState env argv) \<noteq> ''''"
  shows "(\<exists>rest. calls (main env argv) =
            calls (inputState env argv)
            @ [CallChangeGraphQLSchema (inputGraphQLSchema (inputState env argv))
                 (inputGraphQLSchemaChanges (inputState env argv))]
            @ (case changeGraphQLSchema env (inputGraphQLSchema (inputState env argv))
                      (inputGraphQLSchemaChanges (inputState env argv)) of
                 None \<Rightarrow> []
               | Some sdl \<Rightarrow>
                   if sdl = '''' then []
                   else CallSchemaParser (Str sdl)
                        # (case schemaParser env (Str sdl) of
                             None \<Rightarrow> []
                           | Some m \<Rightarrow>
                               [CallValidatedSchemaModel m (quiet (inputState env argv))]))
            @ rest
            \<and> (\<forall>c\<in>set rest. \<not> isInferenceCall c \<and> \<not> isChangeCall c \<and> \<not> isParserCall c
                  \<and> \<not> isValidatorCall c))
         \<and> (\<forall>c\<in>set (calls (inputState env argv)).
               \<not> isChangeCall c \<and> \<not> isParserCall c \<and> \<not> isValidatorCall c)"
proof -
  define s where "s = inputState env argv"
  define base where "base = calls s
            @ [CallChangeGraphQLSchema (inputGraphQLSchema s) (inputGraphQLSchemaChanges s)]
            @ (case changeGraphQLSchema env (inputGraphQLSchema s)
                      (inputGraphQLSchemaChanges s) of
                 None \<Rightarrow> []
               | Some sdl \<Rightarrow>
                   if sdl = '''' then []
                   else CallSchemaParser (Str sdl)
                        # (case schemaParser env (Str sdl) of
                             None \<Rightarrow> []
                           | Some m \<Rightarrow> [CallValidatedSchemaModel m (quiet s)]))"
  have "extendsCalls base afterPasses
      (run_steps [parseValidateGenerate env] (run_steps [applyChanges env] s))"
    unfolding base_def using assms(2,3) unfolding s_def [symmetric] by (rule passes_calls)
  then have "extendsCalls base afterPasses
      (run_steps [initOutputFolder env, outputs env, removePipeline env]
         (run_steps [parseValidateGenerate env] (run_steps [applyChanges env] s)))"
    by (rule covered_steps_inv [where env = env, OF extendsCalls_later [of env], rotated])
      (simp add: covers_def outputAtoms_def)
  then have "extendsCalls base afterPasses (main env argv)"
    using assms(1) unfolding s_def by (simp only: main_from_inputState) simp
  from extendsCalls_rest [OF this]
  obtain rest where rest: "calls (main env argv) = base @ rest" "\<forall>c\<in>set rest. afterPasses c"
    by blast
  have before: "beforePasses s"
    unfolding s_def by (rule beforePasses_inputState)
  show ?thesis
    unfolding s_def [symmetric]
    using rest before unfolding base_def afterPasses_def beforePasses_def
    by (intro conjI exI [of _ rest]) simp_all
qed

theorem changes_before_parse_witness:
  "calls (inputState exampleEnv argvChanges) = [CallReadFileSync (Str ''changes.json'')]
   \<and> (\<exists>rest. calls (main exampleEnv argvChanges) =
          [CallReadFileSync (Str ''changes.json''),
           CallChangeGraphQLSchema (Str ''type A'') ''[remove A.x]'',
           CallSchemaParser (Str ''type A changed''),
           CallValidatedSchemaModel ''model of type A changed'' False] @ rest)"
proof -
  have h: "2 < length argvChanges"
    "status (inputState exampleEnv argvChanges) = Running"
    "inputGraphQLSchemaChanges (inputState exampleEnv argvChanges) \<noteq> ''''"
    by code_simp+
  have v: "calls (inputState exampleEnv argvChanges) = [CallReadFileSync (Str ''changes.json'')]"
    "inputGraphQLSchema (inputState exampleEnv argvChanges) = Str ''type A''"
    "inputGraphQLSchemaChanges (inputState exampleEnv argvChanges) = ''[remove A.x]''"
    "quiet (inputState exampleEnv argvChanges) = False"
    "changeGraphQLSchema exampleEnv (Str ''type A'') ''[remove A.x]'' = Some ''type A changed''"
    "schemaParser exampleEnv (Str ''type A changed'') = Some ''model of type A changed''"
    by code_simp+
  show ?thesis
    using changes_before_parse [OF h] by (auto simp: v)
qed

text \<open>
  C1, as the spec states it, fails: the change engine is called before the parser, never
  after it, and on the SDL text.
\<close>

theorem changes_after_parse_counterexample:
  "precedes isChangeCall isParserCall (calls (main exampleEnv argvChanges))
   \<and> \<not> precedes isParserCall isChangeCall (calls (main exampleEnv argvChanges))
   \<and> CallChangeGraphQLSchema (Str ''type A'') ''[remove A.x]''
       \<in> set (calls (main exampleEnv argvChanges))"
  by code_simp

end
